theory Spec2Isabelle
  imports Complex_Main "HOL-Library.Word" "HOL-Library.Multiset" "HOL-Library.Sublist"
    "HOL-Library.Log_Nat"
begin

section \<open>Data model\<close>

text \<open>
  The chart wrapper (MyTradingView) works on JavaScript values. The embedding fixes these
  representations.

  \<^item> A string is the sequence of its UTF-16 code units, as \<open>String.prototype.length\<close>,
    \<open>split\<close> and \<open>trim\<close> see it. \<open>js\<close> turns an ASCII literal into code units.
  \<^item> A number is a value of the datatype \<open>number\<close>: \<open>NaN\<close>, an infinity, or a finite
    double, which carries its exact rational value. The bars of a feed have finite numbers
    in all fields, written without the constructor: \<open>time\<close> is a Unix time in seconds, an
    integer, and the arithmetic on times is integer arithmetic (for a time from 0 to below
    \<open>2 ^ 53\<close> the double division followed by \<open>Math.floor\<close> and the multiplication by
    the interval give the same number, and so does the multiplication by 1000 of a time
    up to \<open>2 ^ 53 / 1000\<close>: \<open>bucketTime_as_double\<close>, \<open>milliseconds_as_double\<close>); the
    prices and the volume are rationals. The bars that \<open>aggregateBars\<close> returns have a \<open>number\<close> as
    \<open>time\<close> and as \<open>volume\<close>: the bucket time is \<open>NaN\<close> when the interval is not a
    number, and the volume is a sum of doubles, which rounds and can overflow. Prices are
    only copied and compared, which is exact.
  \<^item> \<open>chartSecondsPerResolution\<close> is a plain object: a lookup finds its own entries and,
    for the other keys, the members that every object inherits from \<open>Object.prototype\<close>.
  \<^item> Callbacks are results: \<open>getBars\<close> returns what it hands to \<open>onResult\<close> or
    \<open>onError\<close>, together with the updated compare cache. The HTTP collaborator
    \<open>getDataFeed\<close> is a parameter; \<open>None\<close> is a rejected promise.
\<close>

type_synonym jsstring = "16 word list"

definition js :: "string \<Rightarrow> jsstring" where
  "js s = map of_char s"

datatype number = NaN | PosInfinity | NegInfinity | Num rat

text \<open>
  Modelled from the spec: the declarations \<open>IOhlcvData\<close> and \<open>IDatafeed\<close> (module
  \<open>types/datafeed.type\<close>) are not among the sources. A bar has the six fields that
  \<open>getOhlcvFromFeed\<close> writes and the specification lists (\<open>time\<close> in seconds of the
  Unix epoch, four prices and a volume). The two type parameters are the values that
  \<open>time\<close> and \<open>volume\<close> take: finite ones in a \<open>bar\<close> of a feed, any number in an
  \<open>aggregatedBar\<close>.
\<close>

record ('t, 'v) IOhlcvData =
  time :: 't
  "open" :: rat
  high :: rat
  low :: rat
  close :: rat
  volume :: 'v

type_synonym bar = "(int, rat) IOhlcvData"

type_synonym aggregatedBar = "(number, number) IOhlcvData"

section \<open>Double arithmetic\<close>

text \<open>
  IEEE 754 binary64, rounding to nearest, ties to even, of a rational. \<open>binade a\<close> is the
  integer \<open>e\<close> with \<open>2 ^ e \<le> a < 2 ^ (e + 1)\<close> for a positive \<open>a\<close>: with \<open>a = p / q\<close> it
  is the difference of the bit lengths of \<open>p\<close> and \<open>q\<close>, or one less. A double has 53
  significant bits and no bit below \<open>2 ^ -1074\<close>; a result of magnitude \<open>2 ^ 1024\<close> or
  more is an infinity.
\<close>

definition binade :: "rat \<Rightarrow> int" where
  "binade a =
    (case quotient_of a of
       (p, q) \<Rightarrow> (let d = bitlen p - bitlen q in if 2 powi d \<le> a then d else d - 1))"

definition roundHalfEven :: "rat \<Rightarrow> int" where
  "roundHalfEven y =
    (let n = \<lfloor>y\<rfloor>; r = y - of_int n
     in if r < 1 / 2 then n else if 1 / 2 < r then n + 1 else if even n then n else n + 1)"

definition roundToDouble :: "rat \<Rightarrow> number" where
  "roundToDouble x =
    (if x = 0 then Num 0
     else
       (let a = \<bar>x\<bar>;
            e = max (binade a - 52) (- 1074);
            r = of_int (roundHalfEven (a / 2 powi e)) * 2 powi e
        in if 2 ^ 1024 \<le> r then (if x < 0 then NegInfinity else PosInfinity)
           else Num (if x < 0 then - r else r)))"

text \<open>The operators \<open>+\<close>, \<open><\<close> and \<open><=\<close> on numbers. A comparison with \<open>NaN\<close> is false.\<close>

fun numberAdd :: "number \<Rightarrow> number \<Rightarrow> number" where
  "numberAdd (Num a) (Num b) = roundToDouble (a + b)"
| "numberAdd NaN y = NaN"
| "numberAdd x NaN = NaN"
| "numberAdd PosInfinity NegInfinity = NaN"
| "numberAdd NegInfinity PosInfinity = NaN"
| "numberAdd PosInfinity y = PosInfinity"
| "numberAdd NegInfinity y = NegInfinity"
| "numberAdd x PosInfinity = PosInfinity"
| "numberAdd x NegInfinity = NegInfinity"

fun numberLess :: "number \<Rightarrow> number \<Rightarrow> bool" where
  "numberLess (Num a) (Num b) = (a < b)"
| "numberLess NaN y = False"
| "numberLess x NaN = False"
| "numberLess x NegInfinity = False"
| "numberLess PosInfinity y = False"
| "numberLess NegInfinity y = True"
| "numberLess x PosInfinity = True"

fun numberLessEq :: "number \<Rightarrow> number \<Rightarrow> bool" where
  "numberLessEq (Num a) (Num b) = (a \<le> b)"
| "numberLessEq NaN y = False"
| "numberLessEq x NaN = False"
| "numberLessEq NegInfinity y = True"
| "numberLessEq x PosInfinity = True"
| "numberLessEq x NegInfinity = False"
| "numberLessEq PosInfinity y = False"

text \<open>\<open>time * 1000\<close> on a bucket time, which is an integer or not finite.\<close>

fun numberTimes :: "number \<Rightarrow> int \<Rightarrow> number" where
  "numberTimes (Num a) k = Num (a * of_int k)"
| "numberTimes NaN k = NaN"
| "numberTimes PosInfinity k = (if k = 0 then NaN else if 0 < k then PosInfinity else NegInfinity)"
| "numberTimes NegInfinity k = (if k = 0 then NaN else if 0 < k then NegInfinity else PosInfinity)"

section \<open>Resolution table and aggregateBars\<close>

definition chartSecondsPerResolution :: "(jsstring \<times> nat) list" where
  "chartSecondsPerResolution =
    [(js ''10'', 10 * 60),
     (js ''15'', 15 * 60),
     (js ''30'', 30 * 60),
     (js ''60'', 60 * 60),
     (js ''240'', 240 * 60),
     (js ''480'', 480 * 60),
     (js ''720'', 720 * 60),
     (js ''1440'', 24 * 60 * 60),
     (js ''D'', 24 * 60 * 60),
     (js ''1D'', 24 * 60 * 60),
     (js ''3D'', 3 * 24 * 60 * 60),
     (js ''W'', 7 * 24 * 60 * 60),
     (js ''1W'', 7 * 24 * 60 * 60),
     (js ''M'', 30 * 24 * 60 * 60),
     (js ''1M'', 30 * 24 * 60 * 60)]"

text \<open>
  The names of the members of \<open>Object.prototype\<close> (ECMA-262, with its annex B), which a
  lookup in a plain object finds when the object has no entry of its own for the key. Each
  is a function, or for \<open>__proto__\<close> the prototype object itself: truthy, and \<open>NaN\<close> as a
  number.
\<close>

definition objectPrototypeKeys :: "jsstring list" where
  "objectPrototypeKeys =
    [js ''constructor'', js ''hasOwnProperty'', js ''isPrototypeOf'',
     js ''propertyIsEnumerable'', js ''toLocaleString'', js ''toString'', js ''valueOf'',
     js ''__proto__'', js ''__defineGetter__'', js ''__defineSetter__'',
     js ''__lookupGetter__'', js ''__lookupSetter__'']"

text \<open>
  \<open>chartSecondsPerResolution[resolution] || 300\<close>: the entry of the table, 300 for a
  zero entry and for a key that is found nowhere (undefined), and an inherited member,
  which is not a number, for a key of \<open>Object.prototype\<close>.
\<close>

datatype interval = Seconds int | NotANumber

definition intervalSec :: "jsstring \<Rightarrow> interval" where
  "intervalSec resolution =
    (case map_of chartSecondsPerResolution resolution of
       Some n \<Rightarrow> if n = 0 then Seconds 300 else Seconds (int n)
     | None \<Rightarrow> if resolution \<in> set objectPrototypeKeys then NotANumber else Seconds 300)"

text \<open>\<open>Math.floor(bar.time / intervalSec) * intervalSec\<close>, which is \<open>NaN\<close> when
  \<open>intervalSec\<close> is not a number.\<close>

definition bucketTime :: "interval \<Rightarrow> bar \<Rightarrow> number" where
  "bucketTime i b =
    (case i of
       Seconds s \<Rightarrow> Num (of_int (\<lfloor>(of_int (time b) :: rat) / of_int s\<rfloor> * s))
     | NotANumber \<Rightarrow> NaN)"

text \<open>
  The same expression with every operation on doubles: the quotient is rounded, then
  \<open>Math.floor\<close>, then the product is rounded. It is used only to compare with
  \<open>bucketTime\<close>.
\<close>

definition bucketTimeDouble :: "int \<Rightarrow> bar \<Rightarrow> number" where
  "bucketTimeDouble s b =
    (case roundToDouble (of_int (time b) / of_int s) of
       Num q \<Rightarrow> roundToDouble (of_int \<lfloor>q\<rfloor> * of_int s)
     | n \<Rightarrow> numberTimes n s)"

text \<open>
  The \<open>Map<number, IOhlcvData>\<close> is an association list in insertion order, which is the
  order \<open>buckets.values()\<close> iterates in; as a key, \<open>NaN\<close> equals \<open>NaN\<close>. \<open>bucketStep\<close> is
  one pass of the loop body for the key \<open>k\<close>: a new key is appended with
  \<open>{...bar, time: bucketTime}\<close>, a present key has its aggregate updated in place, the
  volume by the addition of doubles.
\<close>

fun bucketStep ::
  "number \<Rightarrow> bar \<Rightarrow> (number \<times> aggregatedBar) list \<Rightarrow> (number \<times> aggregatedBar) list" where
  "bucketStep k b [] =
    [(k, \<lparr>time = k, open = open b, high = high b, low = low b, close = close b,
          volume = Num (volume b)\<rparr>)]"
| "bucketStep k b ((k', agg) # rest) =
    (if k' = k
     then (k', agg\<lparr>high := max (high agg) (high b),
                   low := min (low agg) (low b),
                   close := close b,
                   volume := numberAdd (volume agg) (Num (volume b))\<rparr>) # rest
     else (k', agg) # bucketStep k b rest)"

definition fillBuckets ::
  "interval \<Rightarrow> bar list \<Rightarrow> (number \<times> aggregatedBar) list \<Rightarrow> (number \<times> aggregatedBar) list" where
  "fillBuckets i rawBars buckets = foldl (\<lambda>m b. bucketStep (bucketTime i b) b m) buckets rawBars"

text \<open>
  \<open>.sort((a, b) => a.time - b.time)\<close> is a stable sort on the times. The buckets have
  either numbers as times or the one time \<open>NaN\<close>, for which the comparator gives \<open>NaN\<close>,
  read by \<open>sort\<close> as 0.
\<close>

definition sortTime :: "aggregatedBar \<Rightarrow> rat" where
  "sortTime b = (case time b of Num t \<Rightarrow> t | _ \<Rightarrow> 0)"

definition aggregateBars :: "bar list \<Rightarrow> jsstring \<Rightarrow> aggregatedBar list" where
  "aggregateBars rawBars resolution =
    sort_key sortTime (map snd (fillBuckets (intervalSec resolution) rawBars []))"

section \<open>The aggregation as the specification words it\<close>








definition asAggregated :: "bar \<Rightarrow> aggregatedBar" where
  "asAggregated b =
    \<lparr>time = Num (of_int (time b)), open = open b, high = high b, low = low b,
     close = close b, volume = Num (volume b)\<rparr>"

section \<open>getOhlcvFromFeed and mergeOhlcv\<close>

text \<open>
  Modelled from the spec: the declaration \<open>IDatafeed\<close> is not among the sources. A feed
  carries \<open>data.attributes.ohlcv_list\<close>, a list of 6-tuples
  \<open>[time, open, high, low, close, volume]\<close>, or no \<open>data\<close> at all, and \<open>meta\<close>, which
  the chart only passes on.
\<close>

type_synonym ohlcvItem = "int \<times> rat \<times> rat \<times> rat \<times> rat \<times> rat"

record 'm datafeed =
  data :: "ohlcvItem list option"
  meta :: "'m option"

definition itemToBar :: "ohlcvItem \<Rightarrow> bar" where
  "itemToBar item =
    (case item of (t, o', h, l, c, v) \<Rightarrow>
       \<lparr>time = t, open = o', high = h, low = l, close = c, volume = v\<rparr>)"

definition getOhlcvFromFeed :: "'m datafeed \<Rightarrow> bar list" where
  "getOhlcvFromFeed feed =
    (case data feed of
       None \<Rightarrow> []
     | Some ohlcv_list \<Rightarrow> sort_key time (map itemToBar ohlcv_list))"

text \<open>The head time of a cursor: the bar's time, or \<open>Infinity\<close> past the end.\<close>

datatype headTime = At int | Infinity

fun minTime :: "headTime \<Rightarrow> headTime \<Rightarrow> headTime" where
  "minTime Infinity t = t"
| "minTime t Infinity = t"
| "minTime (At a) (At b) = At (min a b)"

definition Math_min :: "headTime \<Rightarrow> headTime \<Rightarrow> headTime \<Rightarrow> headTime" where
  "Math_min a b c = minTime (minTime a b) c"

definition headAt :: "bar list \<Rightarrow> nat \<Rightarrow> headTime" where
  "headAt xs i = (if i < length xs then At (time (xs ! i)) else Infinity)"

text \<open>
  The body of the while loop of \<open>mergeOhlcv\<close>: from the cursors \<open>i\<close>, \<open>j\<close>, \<open>k\<close> and
  the output array to their values after one pass. An element is read only at a cursor
  whose head time equals \<open>minT\<close>, which is inside its array.
\<close>

definition mergeStep ::
  "bar list \<Rightarrow> bar list \<Rightarrow> bar list \<Rightarrow> nat \<times> nat \<times> nat \<times> bar list \<Rightarrow> nat \<times> nat \<times> nat \<times> bar list" where
  "mergeStep minuteData hourData dayData st =
    (case st of (i, j, k, merged) \<Rightarrow>
       (let tMin = headAt minuteData i;
            tHour = headAt hourData j;
            tDay = headAt dayData k;
            minT = Math_min tMin tHour tDay
        in if tMin = minT \<and> tHour = minT \<and> tDay = minT
           then (i + 1, j + 1, k + 1, merged @ [dayData ! k])
           else if tHour = minT \<and> tMin = minT
           then (i + 1, j + 1, k, merged @ [hourData ! j])
           else if tDay = minT \<and> tHour = minT
           then (i, j + 1, k + 1, merged @ [dayData ! k])
           else if tDay = minT
           then (i, j, k + 1, merged @ [dayData ! k])
           else if tHour = minT
           then (i, j + 1, k, merged @ [hourData ! j])
           else (i + 1, j, k, merged @ [minuteData ! i])))"

text \<open>The condition of the while loop, and the number of bars that the cursors have not
  passed yet, which every pass of the loop decreases.\<close>

definition mergeRunning :: "bar list \<Rightarrow> bar list \<Rightarrow> bar list \<Rightarrow> nat \<times> nat \<times> nat \<times> bar list \<Rightarrow> bool" where
  "mergeRunning minuteData hourData dayData st =
    (case st of (i, j, k, merged) \<Rightarrow>
       i < length minuteData \<or> j < length hourData \<or> k < length dayData)"

definition mergeLeft :: "bar list \<Rightarrow> bar list \<Rightarrow> bar list \<Rightarrow> nat \<times> nat \<times> nat \<times> bar list \<Rightarrow> nat" where
  "mergeLeft minuteData hourData dayData st =
    (case st of (i, j, k, merged) \<Rightarrow>
       (length minuteData - i) + (length hourData - j) + (length dayData - k))"

lemma minTime_Infinity_iff: "minTime a b = Infinity \<longleftrightarrow> a = Infinity \<and> b = Infinity"
  by (cases a; cases b) simp_all

lemma Math_min_Infinity_iff:
  "Math_min a b c = Infinity \<longleftrightarrow> a = Infinity \<and> b = Infinity \<and> c = Infinity"
  by (simp add: Math_min_def minTime_Infinity_iff)

lemma headAt_Infinity_iff: "headAt xs i = Infinity \<longleftrightarrow> \<not> i < length xs"
  by (simp add: headAt_def)

lemma Math_min_cases: "Math_min a b c = a \<or> Math_min a b c = b \<or> Math_min a b c = c"
  by (cases a; cases b; cases c) (auto simp: Math_min_def min_def)

lemma mergeStep_decreases:
  assumes "mergeRunning m h d st"
  shows "mergeLeft m h d (mergeStep m h d st) < mergeLeft m h d st"
proof -
  obtain i j k merged where st: "st = (i, j, k, merged)"
    by (cases st) auto
  define minT where "minT = Math_min (headAt m i) (headAt h j) (headAt d k)"
  define a where "a \<longleftrightarrow> headAt m i = minT"
  define b where "b \<longleftrightarrow> headAt h j = minT"
  define c where "c \<longleftrightarrow> headAt d k = minT"
  have fin: "minT \<noteq> Infinity"
    using assms unfolding minT_def st mergeRunning_def
    by (simp add: Math_min_Infinity_iff headAt_Infinity_iff)
  have ri: "i < length m" if a
    using that fin unfolding a_def by (metis headAt_Infinity_iff)
  have rj: "j < length h" if b
    using that fin unfolding b_def by (metis headAt_Infinity_iff)
  have rk: "k < length d" if c
    using that fin unfolding c_def by (metis headAt_Infinity_iff)
  have one: "a \<or> b \<or> c"
    using Math_min_cases [of "headAt m i" "headAt h j" "headAt d k"]
    unfolding minT_def a_def b_def c_def by auto
  have step: "mergeStep m h d (i, j, k, merged) =
      (if a \<and> b \<and> c then (i + 1, j + 1, k + 1, merged @ [d ! k])
       else if b \<and> a then (i + 1, j + 1, k, merged @ [h ! j])
       else if c \<and> b then (i, j + 1, k + 1, merged @ [d ! k])
       else if c then (i, j, k + 1, merged @ [d ! k])
       else if b then (i, j + 1, k, merged @ [h ! j])
       else (i + 1, j, k, merged @ [m ! i]))"
    unfolding mergeStep_def Let_def minT_def a_def b_def c_def by simp
  show ?thesis
  proof (cases a; cases b; cases c)
    assume "a" "b" "c"
    then show ?thesis
      using ri rj rk unfolding st step mergeLeft_def by simp
  next
    assume "a" "b" "\<not> c"
    then show ?thesis
      using ri rj unfolding st step mergeLeft_def by simp
  next
    assume "a" "\<not> b" "c"
    then show ?thesis
      using rk unfolding st step mergeLeft_def by simp
  next
    assume "a" "\<not> b" "\<not> c"
    then show ?thesis
      using ri unfolding st step mergeLeft_def by simp
  next
    assume "\<not> a" "b" "c"
    then show ?thesis
      using rj rk unfolding st step mergeLeft_def by simp
  next
    assume "\<not> a" "b" "\<not> c"
    then show ?thesis
      using rj unfolding st step mergeLeft_def by simp
  next
    assume "\<not> a" "\<not> b" "c"
    then show ?thesis
      using rk unfolding st step mergeLeft_def by simp
  next
    assume "\<not> a" "\<not> b" "\<not> c"
    then show ?thesis
      using one by simp
  qed
qed

function mergeLoop ::
  "bar list \<Rightarrow> bar list \<Rightarrow> bar list \<Rightarrow> nat \<times> nat \<times> nat \<times> bar list \<Rightarrow> bar list" where
  "mergeLoop minuteData hourData dayData st =
    (if mergeRunning minuteData hourData dayData st
     then mergeLoop minuteData hourData dayData (mergeStep minuteData hourData dayData st)
     else snd (snd (snd st)))"
  by pat_completeness auto

termination mergeLoop
  by (relation "measure (\<lambda>(m, h, d, st). mergeLeft m h d st)") (simp_all add: mergeStep_decreases)

declare mergeLoop.simps [simp del]

definition mergeOhlcv :: "bar list \<Rightarrow> bar list \<Rightarrow> bar list \<Rightarrow> bar list" where
  "mergeOhlcv minuteData hourData dayData = mergeLoop minuteData hourData dayData (0, 0, 0, [])"

section \<open>Compare ticker codec\<close>

text \<open>
  \<open>String.prototype.trim\<close> removes the code units of WhiteSpace and LineTerminator from
  both ends.
\<close>

definition isWhiteSpace :: "16 word \<Rightarrow> bool" where
  "isWhiteSpace c \<longleftrightarrow>
     c \<in> set [0x0009, 0x000A, 0x000B, 0x000C, 0x000D, 0x0020, 0x00A0, 0x1680,
              0x2000, 0x2001, 0x2002, 0x2003, 0x2004, 0x2005, 0x2006, 0x2007, 0x2008,
              0x2009, 0x200A, 0x2028, 0x2029, 0x202F, 0x205F, 0x3000, 0xFEFF]"

definition trim :: "jsstring \<Rightarrow> jsstring" where
  "trim s = rev (dropWhile isWhiteSpace (rev (dropWhile isWhiteSpace s)))"

text \<open>
  \<open>String.prototype.split\<close> with a string separator: the string is cut at the successive
  leftmost occurrences of the separator, which do not overlap; a string without an
  occurrence is returned as the only part. With the empty separator the parts are the
  single code units.
\<close>

fun split_str :: "'a list \<Rightarrow> 'a list \<Rightarrow> 'a list list" where
  "split_str [] s = map (\<lambda>c. [c]) s"
| "split_str (p # ps) [] = [] # []"
| "split_str (p # ps) (c # cs) =
    (if prefix (p # ps) (c # cs)
     then [] # split_str (p # ps) (drop (length ps) cs)
     else (case split_str (p # ps) cs of
             [] \<Rightarrow> [c] # []
           | part # parts \<Rightarrow> (c # part) # parts))"

definition buildCompareTicker :: "jsstring \<Rightarrow> jsstring \<Rightarrow> jsstring \<Rightarrow> jsstring" where
  "buildCompareTicker poolName network address =
     trim poolName @ js '' / '' @ network @ js '' / '' @ address"

record compareTarget =
  address :: jsstring
  network :: jsstring

definition parseCompareTicker :: "jsstring \<Rightarrow> compareTarget option" where
  "parseCompareTicker ticker =
    (if trim ticker = [] then None
     else
       (let parts = map trim (split_str (js '' / '') ticker)
        in if length parts \<ge> 3
           then
             (let address = parts ! (length parts - 1);
                  network = parts ! (length parts - 2)
              in if address \<noteq> [] \<and> length address \<ge> 8 \<and> network \<noteq> []
                 then Some \<lparr>address = address, network = network\<rparr>
                 else None)
           else None))"

section \<open>Price formatter\<close>

text \<open>The decimal digits of a natural number, as \<open>String(n)\<close> writes them.\<close>

definition digitChar :: "nat \<Rightarrow> 16 word" where
  "digitChar d = 0x30 + of_nat d"

fun decimalDigits :: "nat \<Rightarrow> jsstring" where
  "decimalDigits n =
    (if n < 10 then [digitChar n] else decimalDigits (n div 10) @ [digitChar (n mod 10)])"

declare decimalDigits.simps [simp del]

text \<open>
  \<open>Number.prototype.toFixed(fractionDigits)\<close> on a finite number, after ECMA-262: the
  sign is split off; from \<open>10 ^ 21\<close> on the result is that of \<open>Number::toString\<close>, which
  is the parameter \<open>numberToString\<close>; below, \<open>n\<close> is the integer nearest to
  \<open>x * 10 ^ f\<close> (the larger of two), written with at least \<open>f + 1\<close> digits and a point
  before the last \<open>f\<close>. The formatter calls it with at most 20 fraction digits, inside
  the range that \<open>toFixed\<close> accepts.
\<close>

definition toFixed :: "(rat \<Rightarrow> jsstring) \<Rightarrow> rat \<Rightarrow> nat \<Rightarrow> jsstring" where
  "toFixed numberToString x f =
    (let s = (if x < 0 then js ''-'' else []);
         x' = (if x < 0 then - x else x)
     in if x' \<ge> 10 ^ 21 then s @ numberToString x'
        else
          (let n = nat \<lfloor>x' * 10 ^ f + 1 / 2\<rfloor>;
               m = decimalDigits n;
               m' = (if f \<noteq> 0
                     then
                       (let padded = (if length m \<le> f
                                      then replicate (f + 1 - length m) (digitChar 0) @ m
                                      else m);
                            k = length padded
                        in take (k - f) padded @ js ''.'' @ drop (k - f) padded)
                     else m)
           in s @ m'))"

text \<open>
  \<open>.replace(/\.?0+$/, "")\<close> removes the leftmost match: the run of zeros that ends the
  string, together with a point right before it. \<open>.replace(/0+$/, "")\<close> removes the run
  of zeros that ends the string. Without such a run the string is unchanged.
\<close>

definition replaceFractionZeros :: "jsstring \<Rightarrow> jsstring" where
  "replaceFractionZeros s =
    (let rest = dropWhile (\<lambda>c. c = 0x30) (rev s)
     in if length rest = length s then s
        else (case rest of
                [] \<Rightarrow> []
              | c # r \<Rightarrow> if c = 0x2E then rev r else rev rest))"

definition replaceTrailingZeros :: "jsstring \<Rightarrow> jsstring" where
  "replaceTrailingZeros s = rev (dropWhile (\<lambda>c. c = 0x30) (rev s))"

definition SUBSCRIPT_DIGITS :: "(jsstring \<times> jsstring) list" where
  "SUBSCRIPT_DIGITS =
    [(js ''0'', [0x2080]), (js ''1'', [0x2081]), (js ''2'', [0x2082]), (js ''3'', [0x2083]),
     (js ''4'', [0x2084]), (js ''5'', [0x2085]), (js ''6'', [0x2086]), (js ''7'', [0x2087]),
     (js ''8'', [0x2088]), (js ''9'', [0x2089])]"

definition toSubscript :: "nat \<Rightarrow> jsstring" where
  "toSubscript n =
    concat (map (\<lambda>c. case map_of SUBSCRIPT_DIGITS c of None \<Rightarrow> c | Some sub \<Rightarrow> sub)
                (split_str [] (decimalDigits n)))"

text \<open>The doubles that the literals \<open>0.001\<close> and \<open>0.1\<close> denote.\<close>

definition double_0_001 :: rat where
  "double_0_001 = 1152921504606847 / 2 ^ 60"

definition double_0_1 :: rat where
  "double_0_1 = 3602879701896397 / 2 ^ 55"

text \<open>\<open>signPositive\<close> is an optional boolean: \<open>None\<close> is the omitted argument.\<close>

definition formatCryptoPrice :: "(rat \<Rightarrow> jsstring) \<Rightarrow> number \<Rightarrow> bool option \<Rightarrow> jsstring" where
  "formatCryptoPrice numberToString price signPositive =
    (case price of
       Num p \<Rightarrow>
         (let sign = (if signPositive = Some True \<and> p > 0 then js ''+'' else []);
              isNegative = (p < 0);
              negSign = (if isNegative then js ''-'' else []);
              absPrice = \<bar>p\<bar>
          in if absPrice = 0 then sign @ js ''0''
             else if absPrice \<ge> double_0_001
             then
               (let decimals = (if absPrice \<ge> 1000 then 2
                                else if absPrice \<ge> 1 then 4
                                else if absPrice \<ge> double_0_1 then 5
                                else 6)
                in sign @ negSign @ replaceFractionZeros (toFixed numberToString absPrice decimals))
             else
               (let fixedStr = toFixed numberToString absPrice 20;
                    afterDecimal = (case split_str (js ''.'') fixedStr of
                                      _ # part # _ \<Rightarrow> part
                                    | _ \<Rightarrow> []);
                    leadingZeros = length (takeWhile (\<lambda>ch. ch = 0x30) afterDecimal);
                    sigDigits = replaceTrailingZeros (take 4 (drop leadingZeros afterDecimal));
                    significandRaw = (if sigDigits = [] then js ''0'' else sigDigits)
                in if leadingZeros > 3
                   then sign @ negSign @ js ''0.0'' @ toSubscript leadingZeros @ significandRaw
                   else sign @ negSign
                          @ replaceFractionZeros (toFixed numberToString absPrice (leadingZeros + 4))))
     | _ \<Rightarrow> js ''0'')"

section \<open>The datafeed adapter: fetchFullOhlcv and getBars\<close>

text \<open>
  \<open>getDataFeed\<close> is the HTTP collaborator: from the contract address, the network, the
  timeframe and the aggregate to the feed, or \<open>None\<close> when its promise is rejected.
  \<open>Promise.all\<close> is rejected as soon as one of the three is.
\<close>

definition fetchFullOhlcv ::
  "(jsstring \<Rightarrow> jsstring \<Rightarrow> jsstring \<Rightarrow> nat \<Rightarrow> 'm datafeed option)
     \<Rightarrow> jsstring \<Rightarrow> jsstring \<Rightarrow> (bar list \<times> 'm option) option" where
  "fetchFullOhlcv getDataFeed addr net =
    (case (getDataFeed addr net (js ''day'') 1,
           getDataFeed addr net (js ''hour'') 1,
           getDataFeed addr net (js ''minute'') 5) of
       (Some dayFeed, Some hourFeed, Some minuteFeed) \<Rightarrow>
         (let dayData = getOhlcvFromFeed dayFeed;
              hourData = getOhlcvFromFeed hourFeed;
              minuteData = getOhlcvFromFeed minuteFeed
          in Some (mergeOhlcv minuteData hourData dayData,
                   (case meta dayFeed of
                      Some m \<Rightarrow> Some m
                    | None \<Rightarrow> (case meta hourFeed of
                                  Some m \<Rightarrow> Some m
                                | None \<Rightarrow> meta minuteFeed))))
     | _ \<Rightarrow> None)"

definition DAILY_RESOLUTIONS :: "jsstring list" where
  "DAILY_RESOLUTIONS =
    [js ''1440'', js ''D'', js ''1D'', js ''3D'', js ''W'', js ''1W'', js ''M'', js ''1M'']"

text \<open>
  \<open>parseInt(string)\<close> without a radix, after ECMA-262: leading white space is skipped, a
  sign is read, a prefix \<open>0x\<close> or \<open>0X\<close> selects radix 16, and the longest run of digits
  of the radix is the value; with no digit the result is \<open>NaN\<close>, here \<open>None\<close>. The value
  is exact; rounding it to a double does not change its comparison with 60.
\<close>

definition digitValue :: "16 word \<Rightarrow> nat option" where
  "digitValue c =
    (if 0x30 \<le> c \<and> c \<le> 0x39 then Some (unat c - 0x30)
     else if 0x61 \<le> c \<and> c \<le> 0x7A then Some (unat c - 0x61 + 10)
     else if 0x41 \<le> c \<and> c \<le> 0x5A then Some (unat c - 0x41 + 10)
     else None)"

definition isRadixDigit :: "nat \<Rightarrow> 16 word \<Rightarrow> bool" where
  "isRadixDigit R c = (case digitValue c of None \<Rightarrow> False | Some d \<Rightarrow> d < R)"

definition parseInt :: "jsstring \<Rightarrow> int option" where
  "parseInt string =
    (let S = dropWhile isWhiteSpace string;
         sign = (if S \<noteq> [] \<and> hd S = 0x2D then - 1 else 1 :: int);
         S1 = (if S \<noteq> [] \<and> (hd S = 0x2B \<or> hd S = 0x2D) then tl S else S);
         hex = (prefix (js ''0x'') S1 \<or> prefix (js ''0X'') S1);
         R = (if hex then 16 else 10);
         S2 = (if hex then drop 2 S1 else S1);
         Z = takeWhile (isRadixDigit R) S2
     in if Z = [] then None
        else Some (sign * int (foldl (\<lambda>acc c. acc * R + the (digitValue c)) 0 Z)))"

text \<open>The choice of \<open>sourceData\<close> in \<open>getBars\<close> for the chart's own symbol.\<close>

definition sourceData :: "bar list \<Rightarrow> bar list \<Rightarrow> bar list \<Rightarrow> jsstring \<Rightarrow> bar list" where
  "sourceData minuteData hourData dayData resolution =
    (if resolution \<in> set DAILY_RESOLUTIONS then dayData
     else if (case parseInt resolution of None \<Rightarrow> False | Some n \<Rightarrow> n \<ge> 60)
     then
       (if length hourData > 0 \<and> length dayData > 0
        then
          (let hourStart = time (hourData ! 0);
               historical = filter (\<lambda>b. time b < hourStart) dayData
           in historical @ hourData)
        else (if length hourData > 0 then hourData else dayData))
     else (if length minuteData > 0 then minuteData else hourData))"

record periodParams =
  "from" :: int
  "to" :: int

text \<open>The bar handed to the widget: \<open>time: bar.time * 1000\<close>, in milliseconds.\<close>

definition toMilliseconds :: "aggregatedBar \<Rightarrow> aggregatedBar" where
  "toMilliseconds bar =
    \<lparr>time = numberTimes (time bar) 1000, open = open bar, high = high bar, low = low bar,
     close = close bar, volume = volume bar\<rparr>"

text \<open>
  \<open>serveFromCache\<close>: aggregate, filter to the requested period, convert, and compute
  \<open>noData\<close>. The branch of \<open>getBars\<close> for the chart's own symbol runs the same
  statements on \<open>sourceData\<close>.
\<close>

definition serveFromCache ::
  "bar list \<Rightarrow> jsstring \<Rightarrow> periodParams \<Rightarrow> aggregatedBar list \<times> bool" where
  "serveFromCache rawBars resolution periodParams =
    (let aggregated = aggregateBars rawBars resolution;
         bars = map toMilliseconds
                  (filter (\<lambda>bar. numberLessEq (Num (of_int (from periodParams))) (time bar)
                                 \<and> numberLessEq (time bar) (Num (of_int (to periodParams))))
                     aggregated);
         firstBarTime = (if length aggregated > 0 then Some (time (aggregated ! 0)) else None);
         noData = (length bars = 0 \<and>
                   (case firstBarTime of
                      None \<Rightarrow> True
                    | Some t \<Rightarrow> numberLess (Num (of_int (to periodParams))) t))
     in (bars, noData))"

record symbolInfo =
  ticker :: "jsstring option"
  description :: "jsstring option"
  name :: "jsstring option"

datatype getBarsResult = OnResult "aggregatedBar list" bool | OnError

text \<open>\<open>symbolInfo.ticker ?? symbolInfo.description ?? symbolInfo.name ?? ""\<close>\<close>

definition tickerOf :: "symbolInfo \<Rightarrow> jsstring" where
  "tickerOf symbolInfo =
    (case ticker symbolInfo of
       Some t \<Rightarrow> t
     | None \<Rightarrow> (case description symbolInfo of
                   Some d \<Rightarrow> d
                 | None \<Rightarrow> (case name symbolInfo of Some n \<Rightarrow> n | None \<Rightarrow> [])))"

definition cacheKey :: "compareTarget \<Rightarrow> jsstring" where
  "cacheKey parsed = address parsed @ js ''_'' @ network parsed"

text \<open>
  \<open>getBars\<close>, with \<open>compareBarsCache\<close> passed in and returned. A cached array is truthy
  also when it is empty.
\<close>

definition getBars ::
  "bar list \<Rightarrow> bar list \<Rightarrow> bar list
     \<Rightarrow> (jsstring \<Rightarrow> jsstring \<Rightarrow> jsstring \<Rightarrow> nat \<Rightarrow> 'm datafeed option)
     \<Rightarrow> (jsstring \<rightharpoonup> bar list)
     \<Rightarrow> symbolInfo \<Rightarrow> jsstring \<Rightarrow> periodParams
     \<Rightarrow> getBarsResult \<times> (jsstring \<rightharpoonup> bar list)" where
  "getBars minuteData hourData dayData getDataFeed compareBarsCache symbolInfo resolution periodParams =
    (case parseCompareTicker (tickerOf symbolInfo) of
       None \<Rightarrow>
         (case serveFromCache (sourceData minuteData hourData dayData resolution)
                 resolution periodParams of
            (bars, noData) \<Rightarrow> (OnResult bars noData, compareBarsCache))
     | Some parsed \<Rightarrow>
         (case compareBarsCache (cacheKey parsed) of
            Some cached \<Rightarrow>
              (case serveFromCache cached resolution periodParams of
                 (bars, noData) \<Rightarrow> (OnResult bars noData, compareBarsCache))
          | None \<Rightarrow>
              (case fetchFullOhlcv getDataFeed (address parsed) (network parsed) of
                 Some (fetched, m) \<Rightarrow>
                   (case serveFromCache fetched resolution periodParams of
                      (bars, noData) \<Rightarrow>
                        (OnResult bars noData, compareBarsCache(cacheKey parsed \<mapsto> fetched)))
               | None \<Rightarrow> (OnError, compareBarsCache))))"

section \<open>Example inputs\<close>

text \<open>
  Bars of one token: two day bars, two hour bars and two five-minute bars. The newer day
  bar, the first hour bar and the first minute bar start at the same midnight.
\<close>

definition dayBarOld :: bar where
  "dayBarOld = \<lparr>time = 86400, open = 10, high = 12, low = 9, close = 11, volume = 500\<rparr>"

definition dayBarNew :: bar where
  "dayBarNew = \<lparr>time = 172800, open = 11, high = 13, low = 10, close = 12, volume = 650\<rparr>"

definition hourBar1 :: bar where
  "hourBar1 = \<lparr>time = 172800, open = 11, high = 23 / 2, low = 21 / 2, close = 45 / 4, volume = 30\<rparr>"

definition hourBar2 :: bar where
  "hourBar2 = \<lparr>time = 176400, open = 45 / 4, high = 12, low = 11, close = 47 / 4, volume = 25\<rparr>"

definition minuteBar1 :: bar where
  "minuteBar1 = \<lparr>time = 172800, open = 11, high = 45 / 4, low = 11, close = 89 / 8, volume = 3\<rparr>"

definition minuteBar2 :: bar where
  "minuteBar2 = \<lparr>time = 173100, open = 89 / 8, high = 23 / 2, low = 11, close = 45 / 4, volume = 4\<rparr>"

definition ownSymbol :: symbolInfo where
  "ownSymbol = \<lparr>ticker = Some (js ''TOKEN''), description = Some (js ''TOKEN Dextrading.com''),
                name = Some (js ''TOKEN'')\<rparr>"

definition noFeed :: "jsstring \<Rightarrow> jsstring \<Rightarrow> jsstring \<Rightarrow> nat \<Rightarrow> unit datafeed option" where
  "noFeed addr net timeframe aggregate = None"

text \<open>The doubles that the literals \<open>0.05\<close>, \<open>0.000000942\<close> and \<open>1234.5\<close> denote.\<close>

definition double_0_05 :: rat where
  "double_0_05 = 3602879701896397 / 2 ^ 56"

definition double_0_000000942 :: rat where
  "double_0_000000942 = 2224234613431603 / 2 ^ 71"

definition double_1234_5 :: rat where
  "double_1234_5 = 2469 / 2"

definition compareSymbol :: symbolInfo where
  "compareSymbol = \<lparr>ticker = Some (js ''BIBI / bsc / 0xABCDEF12''), description = None,
                    name = None\<rparr>"

definition emptyFeed :: "jsstring \<Rightarrow> jsstring \<Rightarrow> jsstring \<Rightarrow> nat \<Rightarrow> unit datafeed option" where
  "emptyFeed addr net timeframe aggregate = Some \<lparr>data = None, meta = None\<rparr>"








section \<open>Double addition on the example values\<close>

text \<open>
  \<open>roundToDouble_pos\<close> reduces a rounding to two facts that \<open>simp\<close> evaluates: the
  binade of the exact value and the integer part of its significand.
\<close>

lemma powi_2_pos: "(0::rat) < 2 powi e"
  by (simp add: zero_less_power_int)

lemma powi_2_less_imp: "(2::rat) powi m < 2 powi n \<Longrightarrow> m < n"
proof (rule ccontr)
  assume "2 powi m < (2::rat) powi n" and "\<not> m < n"
  then have "(2::rat) powi n \<le> 2 powi m"
    by (intro power_int_increasing) simp_all
  with \<open>2 powi m < (2::rat) powi n\<close> show False
    by simp
qed

lemma binade_bounds:
  assumes "0 < a"
  shows "2 powi binade a \<le> a \<and> a < 2 powi (binade a + 1)"
proof -
  obtain p q where pq: "quotient_of a = (p, q)"
    by (cases "quotient_of a") auto
  then have q: "0 < q" and a: "a = of_int p / of_int q"
    using quotient_of_denom_pos quotient_of_div by blast+
  have p: "0 < p"
    using assms q unfolding a by (simp add: zero_less_divide_iff)
  define bp where "bp = bitlen p"
  define bq where "bq = bitlen q"
  have bp1: "1 \<le> bp" and bq1: "1 \<le> bq"
    using p q bitlen_eq_zero_iff [of p] bitlen_eq_zero_iff [of q] bitlen_nonneg [of p] bitlen_nonneg [of q]
    unfolding bp_def bq_def by linarith+
  have pb: "2 ^ nat (bp - 1) \<le> p" "p < 2 ^ nat bp"
    using bitlen_bounds [OF p] unfolding bp_def by auto
  have qb: "2 ^ nat (bq - 1) \<le> q" "q < 2 ^ nat bq"
    using bitlen_bounds [OF q] unfolding bq_def by auto
  have P1: "(2::rat) powi (bp - 1) \<le> of_int p"
  proof -
    have "(of_int (2 ^ nat (bp - 1)) :: rat) \<le> of_int p"
      using pb(1) by (simp only: of_int_le_iff)
    then show ?thesis
      using bp1 by (simp add: power_int_def)
  qed
  have P2: "(of_int p :: rat) < 2 powi bp"
  proof -
    have "(of_int p :: rat) < of_int (2 ^ nat bp)"
      using pb(2) by (simp only: of_int_less_iff)
    then show ?thesis
      using bp1 by (simp add: power_int_def)
  qed
  have Q1: "(2::rat) powi (bq - 1) \<le> of_int q"
  proof -
    have "(of_int (2 ^ nat (bq - 1)) :: rat) \<le> of_int q"
      using qb(1) by (simp only: of_int_le_iff)
    then show ?thesis
      using bq1 by (simp add: power_int_def)
  qed
  have Q2: "(of_int q :: rat) < 2 powi bq"
  proof -
    have "(of_int q :: rat) < of_int (2 ^ nat bq)"
      using qb(2) by (simp only: of_int_less_iff)
    then show ?thesis
      using bq1 by (simp add: power_int_def)
  qed
  have qpos: "(0::rat) < of_int q"
    using q by simp
  define d where "d = bp - bq"
  have upper: "a < 2 powi (d + 1)"
  proof -
    have "of_int p < (2::rat) powi bp"
      by (rule P2)
    also have "\<dots> = 2 powi (d + 1) * 2 powi (bq - 1)"
      unfolding d_def by (simp add: power_int_add [symmetric])
    also have "\<dots> \<le> 2 powi (d + 1) * of_int q"
      using Q1 powi_2_pos [of "d + 1"] by (simp add: mult_left_mono)
    finally show ?thesis
      unfolding a using qpos by (simp add: pos_divide_less_eq)
  qed
  have lower: "2 powi (d - 1) < a"
  proof -
    have "(2::rat) powi (d - 1) * of_int q < 2 powi (d - 1) * 2 powi bq"
      using Q2 powi_2_pos [of "d - 1"] by (simp add: mult_strict_left_mono)
    also have "\<dots> = 2 powi (bp - 1)"
      unfolding d_def by (simp add: power_int_add [symmetric])
    also have "\<dots> \<le> of_int p"
      by (rule P1)
    finally show ?thesis
      unfolding a using qpos by (simp add: pos_less_divide_eq)
  qed
  have b: "binade a = (if 2 powi d \<le> a then d else d - 1)"
    unfolding binade_def pq d_def bp_def bq_def by (simp add: Let_def)
  show ?thesis
  proof (cases "2 powi d \<le> a")
    case True
    then show ?thesis
      using upper b by simp
  next
    case False
    then have "a < 2 powi (d - 1 + 1)"
      by simp
    then show ?thesis
      using lower b False by simp
  qed
qed

lemma binade_unique:
  assumes "0 < a" and "2 powi e \<le> a" and "a < 2 powi (e + 1)"
  shows "binade a = e"
proof -
  let ?b = "binade a"
  have b: "2 powi ?b \<le> a" "a < 2 powi (?b + 1)"
    using binade_bounds [OF assms(1)] by auto
  have "(2::rat) powi e < 2 powi (?b + 1)"
    using assms(2) b(2) by (rule le_less_trans)
  then have 1: "e < ?b + 1"
    by (rule powi_2_less_imp)
  have "(2::rat) powi ?b < 2 powi (e + 1)"
    using b(1) assms(3) by (rule le_less_trans)
  then have 2: "?b < e + 1"
    by (rule powi_2_less_imp)
  from 1 2 show ?thesis
    by simp
qed

lemma roundToDouble_pos:
  assumes "0 < x" and "2 powi b \<le> x" and "x < 2 powi (b + 1)"
    and "e = max (b - 52) (- 1074)"
    and "of_int n \<le> x / 2 powi e" and "x / 2 powi e < of_int n + 1"
    and "m = (if x / 2 powi e - of_int n < 1 / 2 then n
              else if 1 / 2 < x / 2 powi e - of_int n then n + 1
              else if even n then n else n + 1)"
    and "of_int m * 2 powi e < (2::rat) ^ 1024"
  shows "roundToDouble x = Num (of_int m * 2 powi e)"
proof -
  have b: "binade x = b"
    using assms(1-3) by (rule binade_unique)
  have f: "\<lfloor>x / 2 powi e\<rfloor> = n"
    using assms(5,6) by (rule floor_unique)
  have r: "roundHalfEven (x / 2 powi e) = m"
    unfolding roundHalfEven_def Let_def f assms(7) by simp
  have a: "\<bar>x\<bar> = x"
    using assms(1) by simp
  have "\<not> (2::rat) ^ 1024 \<le> of_int m * 2 powi e"
    using assms(8) by simp
  then show ?thesis
    using assms(1) unfolding roundToDouble_def Let_def a b assms(4) [symmetric] r by simp
qed







section \<open>Time arithmetic on doubles\<close>

text \<open>
  An integer from 0 to \<open>2 ^ 53\<close> is a double. The rounded quotient of a time below
  \<open>2 ^ 53\<close> by an interval is less than \<open>1 / interval\<close> away from the exact one,
  so it has the same floor, and the products are integers below \<open>2 ^ 53\<close>.
\<close>

lemma roundHalfEven_error: "\<bar>of_int (roundHalfEven y) - y\<bar> \<le> 1 / 2"
proof -
  have "of_int \<lfloor>y\<rfloor> \<le> y" "y < of_int \<lfloor>y\<rfloor> + 1"
    by linarith+
  then show ?thesis
    unfolding roundHalfEven_def Let_def by (auto simp: abs_le_iff)
qed

lemma roundToDouble_representable:
  assumes "0 < x" and "2 powi b \<le> x" and "x < 2 powi (b + 1)"
    and "e = max (b - 52) (- 1074)"
    and "x / 2 powi e = of_int k" and "x < 2 ^ 1024"
  shows "roundToDouble x = Num x"
proof -
  have p: "(0::rat) < 2 powi e"
    by (rule powi_2_pos)
  have x: "of_int k * 2 powi e = x"
    using assms(5) p by (simp add: field_simps)
  have "roundToDouble x = Num (of_int k * 2 powi e)"
    using assms(1-4)
  proof (rule roundToDouble_pos)
    show "of_int k \<le> x / 2 powi e" "x / 2 powi e < of_int k + 1"
      using assms(5) by simp_all
    show "k = (if x / 2 powi e - of_int k < 1 / 2 then k
              else if 1 / 2 < x / 2 powi e - of_int k then k + 1
              else if even k then k else k + 1)"
      using assms(5) by simp
    show "of_int k * 2 powi e < (2::rat) ^ 1024"
      unfolding x by (rule assms(6))
  qed
  then show ?thesis
    unfolding x .
qed

lemma roundToDouble_int:
  assumes "0 \<le> n" and "n \<le> 2 ^ 53"
  shows "roundToDouble (of_int n) = Num (of_int n)"
proof (cases "n = 0")
  case True
  then show ?thesis by (simp add: roundToDouble_def)
next
  case False
  let ?x = "of_int n :: rat"
  let ?b = "binade ?x"
  have pos: "0 < ?x"
    using assms(1) False by simp
  have b: "2 powi ?b \<le> ?x" "?x < 2 powi (?b + 1)"
    using binade_bounds [OF pos] by auto
  have "(1::rat) \<le> ?x"
    using assms(1) False by simp
  then have "(2::rat) powi 0 < 2 powi (?b + 1)"
    using b(2) by simp
  then have lo: "0 \<le> ?b"
    using powi_2_less_imp by fastforce
  have x53: "?x \<le> 2 ^ 53"
    using assms(2) by (metis of_int_le_iff of_int_numeral of_int_power)
  then have "(2::rat) powi ?b < 2 powi (53 + 1)"
    using b(1) by simp
  then have hi: "?b \<le> 53"
    using powi_2_less_imp by fastforce
  have big: "?x < 2 ^ 1024"
    using x53 by (rule le_less_trans) simp
  show ?thesis
  proof (cases "?b = 53")
    case True
    then have "?x = 2 ^ 53"
      using b(1) x53 by simp
    then have n: "n = 2 ^ 53"
      by (metis of_int_eq_iff of_int_numeral of_int_power)
    show ?thesis
      unfolding n
      by (rule roundToDouble_representable [where b = 53 and e = 1 and k = "2 ^ 52"]) simp_all
  next
    case False
    then have le: "?b \<le> 52"
      using hi by simp
    define j where "j = nat (52 - ?b)"
    have e: "?b - 52 = - int j"
      using le by (simp add: j_def)
    have m: "max (?b - 52) (- 1074) = - int j"
      using lo e by simp
    have "?x / 2 powi (- int j) = of_int (n * 2 ^ j)"
      by (simp add: power_int_minus field_simps)
    with pos b m [symmetric] show ?thesis
      using big by (rule roundToDouble_representable)
  qed
qed

lemma roundToDouble_error:
  assumes "0 < x" and "x < 2 ^ 53"
  shows "\<exists>r. roundToDouble x = Num r \<and> \<bar>r - x\<bar> \<le> max (x / 2 ^ 53) (2 powi (- 1075))"
proof -
  define b where "b = binade x"
  define e where "e = max (b - 52) (- 1074)"
  define m where "m = roundHalfEven (x / 2 powi e)"
  define r :: rat where "r = of_int m * 2 powi e"
  have p: "(0::rat) < 2 powi e"
    by (rule powi_2_pos)
  have bb: "2 powi b \<le> x"
    using binade_bounds [OF assms(1)] by (simp add: b_def)
  have "\<bar>of_int m - x / 2 powi e\<bar> \<le> 1 / 2"
    unfolding m_def by (rule roundHalfEven_error)
  then have "\<bar>of_int m - x / 2 powi e\<bar> * 2 powi e \<le> 1 / 2 * 2 powi e"
    using p by (intro mult_right_mono) simp_all
  moreover have "\<bar>of_int m - x / 2 powi e\<bar> * 2 powi e = \<bar>r - x\<bar>"
  proof -
    have "\<bar>of_int m - x / 2 powi e\<bar> * 2 powi e = \<bar>(of_int m - x / 2 powi e) * 2 powi e\<bar>"
      using p by (simp add: abs_mult)
    also have "(of_int m - x / 2 powi e) * 2 powi e = r - x"
      using p by (simp add: r_def field_simps)
    finally show ?thesis .
  qed
  ultimately have err: "\<bar>r - x\<bar> \<le> 2 powi e / 2"
    by simp
  have half: "2 powi e / 2 \<le> max (x / 2 ^ 53) (2 powi (- 1075))"
  proof (cases "- 1074 \<le> b - 52")
    case True
    then have "e = b - 52"
      by (simp add: e_def)
    then have "(2::rat) powi e / 2 = 2 powi b / 2 ^ 53"
      by (simp add: power_int_diff)
    also have "\<dots> \<le> x / 2 ^ 53"
      using bb by (simp add: divide_right_mono)
    finally show ?thesis
      by simp
  next
    case False
    then have "e = - 1074"
      by (simp add: e_def)
    then have "(2::rat) powi e / 2 = 2 powi (- 1075)"
      by (simp add: power_int_minus)
    then show ?thesis
      by simp
  qed
  have small: "max (x / 2 ^ 53) (2 powi (- 1075)) < (1::rat)"
    using assms by (simp add: power_int_minus)
  have "r \<le> x + \<bar>r - x\<bar>"
    by simp
  also have "\<dots> < 2 ^ 53 + 1"
    using err half small assms(2) by linarith
  also have "\<dots> < (2::rat) ^ 1024"
    by simp
  finally have fin: "\<not> 2 ^ 1024 \<le> r" 
    by simp
  have a: "\<bar>x\<bar> = x"
    using assms(1) by simp
  have "roundToDouble x = Num r"
    using assms(1) fin
    unfolding roundToDouble_def Let_def a b_def [symmetric] e_def [symmetric] m_def [symmetric]
      r_def [symmetric]
    by simp
  then show ?thesis
    using err half by (intro exI [of _ r]) simp
qed

lemma bucketTimeDouble_exact:
  assumes "0 < s" and "s < 2 ^ 53" and "0 \<le> time b" and "time b < 2 ^ 53"
  shows "bucketTimeDouble s b = Num (of_int (time b div s * s))"
proof -
  define t where "t = time b"
  define n where "n = t div s"
  let ?x = "(of_int t :: rat) / of_int s"
  have t: "0 \<le> t" "t < 2 ^ 53"
    using assms(3,4) by (simp_all add: t_def)
  have n0: "0 \<le> n"
    using t(1) assms(1) by (simp add: n_def pos_imp_zdiv_nonneg_iff)
  have md: "t = n * s + t mod s"
    by (simp add: n_def)
  have "0 \<le> t mod s"
    using assms(1) by simp
  with md have ns: "n * s \<le> t"
    by linarith
  have prod: "roundToDouble (of_int n * of_int s) = Num (of_int (n * s))"
  proof -
    have "0 \<le> n * s" "n * s \<le> 2 ^ 53"
      using n0 assms(1) ns t(2) by simp_all
    then have "roundToDouble (of_int (n * s)) = Num (of_int (n * s))"
      by (rule roundToDouble_int)
    then show ?thesis
      by simp
  qed
  have "\<exists>q. roundToDouble ?x = Num q \<and> \<lfloor>q\<rfloor> = n"
  proof (cases "t mod s = 0")
    case True
    with md have "t = n * s"
      by simp
    then have x: "?x = of_int n"
      using assms(1) by simp
    have "n * 1 \<le> n * s"
      using n0 assms(1) by (intro mult_left_mono) simp_all
    then have "n \<le> 2 ^ 53"
      using ns t(2) by simp
    with n0 have "roundToDouble (of_int n) = Num (of_int n)"
      by (rule roundToDouble_int)
    then show ?thesis
      unfolding x by simp
  next
    case False
    define k where "k = t mod s"
    have "0 \<le> k" "k < s" "k \<noteq> 0"
      using False assms(1) by (simp_all add: k_def)
    then have k: "1 \<le> k" "k \<le> s - 1"
      by linarith+
    have tk: "t = n * s + k"
      using md by (simp add: k_def)
    have sp: "(0::rat) < of_int s"
      using assms(1) by simp
    have x: "?x = of_int n + of_int k / of_int s"
      using sp by (simp add: tk field_simps)
    have lo: "of_int n + 1 / of_int s \<le> ?x"
      unfolding x using k(1) sp by (simp add: divide_right_mono)
    have "(of_int k :: rat) / of_int s \<le> (of_int s - 1) / of_int s"
      using k(2) sp by (intro divide_right_mono) (simp_all flip: of_int_diff add: of_int_le_iff del: of_int_diff)
    also have "\<dots> = 1 - 1 / of_int s"
      using sp by (simp add: field_simps)
    finally have hi: "?x \<le> of_int n + 1 - 1 / of_int s"
      unfolding x by simp
    have "(0::rat) < of_int n + 1 / of_int s"
      using n0 sp by (intro add_nonneg_pos) simp_all
    then have xpos: "0 < ?x"
      using lo by (rule less_le_trans)
    have t53: "(of_int t :: rat) < 2 ^ 53"
      using t(2) by (metis of_int_less_iff of_int_numeral of_int_power)
    have s53: "(of_int s :: rat) < 2 ^ 53"
      using assms(2) by (metis of_int_less_iff of_int_numeral of_int_power)
    have s1: "(1::rat) \<le> of_int s"
      using assms(1) by simp
    have "?x \<le> of_int t / 1"
      using s1 t(1) sp by (intro divide_left_mono) simp_all
    then have x53: "?x < 2 ^ 53"
      using t53 by simp
    obtain r where r: "roundToDouble ?x = Num r"
      and err: "\<bar>r - ?x\<bar> \<le> max (?x / 2 ^ 53) (2 powi (- 1075))"
      using roundToDouble_error [OF xpos x53] by blast
    have "?x / 2 ^ 53 = (of_int t / 2 ^ 53) / of_int s"
      by simp
    also have "\<dots> < 1 / of_int s"
      using t53 sp by (intro divide_strict_right_mono) simp_all
    finally have e1: "?x / 2 ^ 53 < 1 / of_int s" .
    have "(2::rat) powi (- 1075) < 1 / 2 ^ 53"
      by (simp add: power_int_minus)
    also have "\<dots> < 1 / of_int s"
      using s53 sp by (simp add: field_simps)
    finally have e2: "(2::rat) powi (- 1075) < 1 / of_int s" .
    have "\<bar>r - ?x\<bar> < 1 / of_int s"
      using err e1 e2 by simp
    then have "of_int n < r" "r < of_int n + 1"
      using lo hi by linarith+
    then have "\<lfloor>r\<rfloor> = n"
      by (intro floor_unique) simp_all
    with r show ?thesis
      by blast
  qed
  then obtain q where q: "roundToDouble ?x = Num q" "\<lfloor>q\<rfloor> = n"
    by blast
  have "bucketTimeDouble s b = roundToDouble (of_int n * of_int s)"
    unfolding bucketTimeDouble_def t_def [symmetric] q(1) by (simp add: q(2))
  then show ?thesis
    unfolding prod by (simp add: n_def t_def)
qed

lemma bucketTime_as_double:
  assumes "0 < s" and "s < 2 ^ 53" and "0 \<le> time b" and "time b < 2 ^ 53"
  shows "bucketTime (Seconds s) b = bucketTimeDouble s b"
  unfolding bucketTimeDouble_exact [OF assms] by (simp add: bucketTime_def floor_divide_of_int_eq)

lemma milliseconds_as_double:
  assumes "0 \<le> t" and "t * 1000 \<le> 2 ^ 53"
  shows "numberTimes (Num (of_int t)) 1000 = roundToDouble (of_int t * 1000)"
proof -
  have "0 \<le> t * 1000"
    using assms(1) by simp
  then have "roundToDouble (of_int (t * 1000)) = Num (of_int (t * 1000))"
    using assms(2) by (rule roundToDouble_int)
  then show ?thesis
    by simp
qed

section \<open>Aggregation: buckets, volume, refinement of the specification, native resolution\<close>

subsection \<open>The buckets after the loop\<close>
















subsection \<open>Total volume\<close>














lemma intervalSec_60: "intervalSec (js ''60'') = Seconds 3600"
  by (simp add: intervalSec_def chartSecondsPerResolution_def js_def)






lemma bucketTime_div:
  "bucketTime (Seconds i) b = Num (of_int ((time b div i) * i))"
  by (simp add: bucketTime_def floor_divide_of_int_eq)














section \<open>mergeOhlcv on a timestamp shared by the day and the minute series only\<close>

lemma merge_day_minute_example:
  "mergeOhlcv [minuteBar1] [] [dayBarNew] = [dayBarNew, minuteBar1]"
  by (simp add: mergeOhlcv_def mergeLoop.simps mergeStep_def mergeRunning_def headAt_def
      Math_min_def minuteBar1_def dayBarNew_def)

lemma merge_three_example:
  "mergeOhlcv [minuteBar1] [hourBar1] [dayBarNew] = [dayBarNew]"
  by (simp add: mergeOhlcv_def mergeLoop.simps mergeStep_def mergeRunning_def headAt_def
      Math_min_def minuteBar1_def hourBar1_def dayBarNew_def)

lemma merge_history_example:
  "mergeOhlcv [minuteBar1, minuteBar2] [] [dayBarOld, dayBarNew]
     = [dayBarOld, dayBarNew, minuteBar1, minuteBar2]"
  by (simp add: mergeOhlcv_def mergeLoop.simps mergeStep_def mergeRunning_def headAt_def
      Math_min_def minuteBar1_def minuteBar2_def dayBarOld_def dayBarNew_def)

text \<open>
  C1. The claim: when a timestamp is in more than one input series, \<open>mergeOhlcv\<close> emits
  at that timestamp only the bar of the series of highest priority (day, then hour, then
  minute), and for a timestamp in both the day and the minute series the merged bar is the
  day bar, never the minute bar. The code does this when the hour series has the timestamp
  too, and fails when it has not: with a day bar and a minute bar at the same time and no
  hour bar there, the branch \<open>tDay === minT\<close> advances the day cursor only, and the next
  pass emits the minute bar as well.
\<close>

theorem mergeOhlcv_day_minute_tie_keeps_minute_bar:
  "sorted_wrt (<) (map time [minuteBar1]) \<and> sorted_wrt (<) (map time [dayBarNew])
   \<and> time minuteBar1 = time dayBarNew
   \<and> mergeOhlcv [minuteBar1] [] [dayBarNew] = [dayBarNew, minuteBar1]
   \<and> mergeOhlcv [minuteBar1] [hourBar1] [dayBarNew] = [dayBarNew]"
  by (simp add: merge_day_minute_example merge_three_example)
     (simp add: minuteBar1_def dayBarNew_def)

text \<open>
  C2. The claim: for input series with strictly increasing times, the times of the output
  of \<open>mergeOhlcv\<close> are strictly increasing, without duplicates. On the inputs below, each
  strictly increasing, the output has the day bar and the minute bar of the same midnight
  one after the other, so its times are neither strictly increasing nor distinct.
\<close>

theorem mergeOhlcv_output_repeats_time:
  "sorted_wrt (<) (map time [minuteBar1, minuteBar2])
   \<and> sorted_wrt (<) (map time ([] :: bar list))
   \<and> sorted_wrt (<) (map time [dayBarOld, dayBarNew])
   \<and> map time (mergeOhlcv [minuteBar1, minuteBar2] [] [dayBarOld, dayBarNew])
       = [86400, 172800, 172800, 173100]
   \<and> \<not> sorted_wrt (<) (map time (mergeOhlcv [minuteBar1, minuteBar2] [] [dayBarOld, dayBarNew]))
   \<and> \<not> distinct (map time (mergeOhlcv [minuteBar1, minuteBar2] [] [dayBarOld, dayBarNew]))"
  by (simp add: merge_history_example)
     (simp add: minuteBar1_def minuteBar2_def dayBarOld_def dayBarNew_def)

section \<open>Compare ticker codec: round trip and rejection\<close>

lemma split_str_nonempty: "split_str (p # ps) s \<noteq> []"
  by (induction s) (auto split: list.splits)

lemma split_str_no_occurrence:
  "\<not> sublist (p # ps) s \<Longrightarrow> split_str (p # ps) s = [s]"
proof (induction s)
  case Nil
  then show ?case by simp
next
  case (Cons c cs)
  have "\<not> prefix (p # ps) (c # cs)"
    using Cons.prems prefix_imp_sublist by blast
  moreover have "\<not> sublist (p # ps) cs"
    using Cons.prems by (meson sublist_Cons_right)
  ultimately show ?case
    using Cons.IH by simp
qed

lemma aba_prefix_middle:
  assumes "a \<noteq> b" and "prefix [a, b, a] (w @ [a, b, a] @ rest)" and "w \<noteq> []"
  shows "suffix [a, b] w \<and> length w = 2 \<or> prefix [a, b, a] w"
proof -
  consider (one) x where "w = [x]" | (two) x y where "w = [x, y]"
    | (more) x y z w' where "w = x # y # z # w'"
    using assms(3) by (metis list.exhaust)
  then show ?thesis
  proof cases
    case one
    then show ?thesis using assms by simp
  next
    case two
    then show ?thesis using assms by (simp add: suffix_def)
  next
    case more
    then show ?thesis using assms by auto
  qed
qed

lemma split_str_segment:
  assumes "a \<noteq> b" and "\<not> sublist [a, b, a] w" and "\<not> suffix [a, b] w"
  shows "split_str [a, b, a] (w @ [a, b, a] @ rest) = w # split_str [a, b, a] rest"
  using assms(2,3)
proof (induction w)
  case Nil
  then show ?case by simp
next
  case (Cons c cs)
  have np: "\<not> prefix [a, b, a] ((c # cs) @ [a, b, a] @ rest)"
    using aba_prefix_middle [OF assms(1), of "c # cs" rest] Cons.prems prefix_imp_sublist
    by blast
  have "\<not> sublist [a, b, a] cs"
    using Cons.prems(1) by (meson sublist_Cons_right)
  moreover have "\<not> suffix [a, b] cs"
    using Cons.prems(2) by (meson suffix_ConsI)
  ultimately have "split_str [a, b, a] (cs @ [a, b, a] @ rest) = cs # split_str [a, b, a] rest"
    by (rule Cons.IH)
  then show ?case
    using np by simp
qed

lemma split_str_name:
  assumes "a \<noteq> b" and "\<not> suffix [a, b] n"
  shows "\<exists>parts. parts \<noteq> [] \<and>
           split_str [a, b, a] (n @ [a, b, a] @ rest) = parts @ split_str [a, b, a] rest"
  using assms(2)
proof (induction n rule: length_induct)
  case (1 n)
  show ?case
  proof (cases n)
    case Nil
    then have "split_str [a, b, a] (n @ [a, b, a] @ rest) = ([] # []) @ split_str [a, b, a] rest"
      by simp
    then show ?thesis by blast
  next
    case (Cons c cs)
    show ?thesis
    proof (cases "prefix [a, b, a] (n @ [a, b, a] @ rest)")
      case True
      then have "prefix [a, b, a] n"
        using aba_prefix_middle [OF assms(1), of n rest] "1.prems" Cons by auto
      then obtain n' where n': "n = [a, b, a] @ n'"
        by (auto simp: prefix_def)
      have "\<not> suffix [a, b] n'"
        by (metis "1.prems" n' suffix_appendI)
      moreover have "length n' < length n"
        using n' by simp
      ultimately obtain parts where
        "split_str [a, b, a] (n' @ [a, b, a] @ rest) = parts @ split_str [a, b, a] rest"
        using "1.IH" by blast
      then have "split_str [a, b, a] (n @ [a, b, a] @ rest)
          = ([] # parts) @ split_str [a, b, a] rest"
        unfolding n' by simp
      then show ?thesis by blast
    next
      case False
      have "\<not> suffix [a, b] cs"
        by (metis "1.prems" Cons suffix_ConsI)
      moreover have "length cs < length n"
        using Cons by simp
      ultimately obtain parts where p: "parts \<noteq> []"
        "split_str [a, b, a] (cs @ [a, b, a] @ rest) = parts @ split_str [a, b, a] rest"
        using "1.IH" by blast
      then obtain q qs where q: "parts = q # qs"
        by (cases parts) auto
      have "split_str [a, b, a] (n @ [a, b, a] @ rest)
          = ((c # q) # qs) @ split_str [a, b, a] rest"
        using False p(2) unfolding Cons q by simp
      then show ?thesis by blast
    qed
  qed
qed

lemma trim_eq_Nil_iff: "trim s = [] \<longleftrightarrow> (\<forall>c \<in> set s. isWhiteSpace c)"
proof -
  have "trim s = [] \<longleftrightarrow> (\<forall>c \<in> set (dropWhile isWhiteSpace s). isWhiteSpace c)"
    by (simp add: trim_def dropWhile_eq_Nil_conv)
  also have "\<dots> \<longleftrightarrow> dropWhile isWhiteSpace s = []"
  proof (cases "dropWhile isWhiteSpace s = []")
    case True
    then show ?thesis by (simp del: dropWhile_eq_Nil_conv)
  next
    case False
    then have "hd (dropWhile isWhiteSpace s) \<in> set (dropWhile isWhiteSpace s)"
      and "\<not> isWhiteSpace (hd (dropWhile isWhiteSpace s))"
      by (simp_all add: hd_dropWhile)
    then show ?thesis
      using False by blast
  qed
  also have "\<dots> \<longleftrightarrow> (\<forall>c \<in> set s. isWhiteSpace c)"
    by (simp add: dropWhile_eq_Nil_conv)
  finally show ?thesis .
qed

lemma sep_chars: "js '' / '' = [0x20, 0x2F, 0x20]" "js '' /'' = [0x20, 0x2F]"
  by (simp_all add: js_def)

lemma trim_blank: "trim s = [] \<longleftrightarrow> list_all isWhiteSpace s"
  by (simp add: trim_eq_Nil_iff list_all_iff)

text \<open>
  C7, as the claim states it, fails: a network that ends in a space and a slash has no
  \<open>" / "\<close> inside and no white space around it, yet the separator that follows it is
  found one code unit early, and the slash lands in the address.
\<close>

theorem codec_roundtrip_counterexample:
  "trim (js ''x /'') = js ''x /'' \<and> trim (js ''0x12345678'') = js ''0x12345678''
   \<and> js ''x /'' \<noteq> [] \<and> 8 \<le> length (js ''0x12345678'')
   \<and> \<not> sublist (js '' / '') (js ''x /'') \<and> \<not> sublist (js '' / '') (js ''0x12345678'')
   \<and> \<not> sublist (js '' / '') (trim (js ''a''))
   \<and> parseCompareTicker (buildCompareTicker (js ''a'') (js ''x /'') (js ''0x12345678''))
       = Some \<lparr>address = js ''/ 0x12345678'', network = js ''x''\<rparr>
   \<and> parseCompareTicker (buildCompareTicker (js ''a'') (js ''x /'') (js ''0x12345678''))
       \<noteq> Some \<lparr>address = js ''0x12345678'', network = js ''x /''\<rparr>"
  by code_simp

text \<open>
  C7, amended. For every name whose trimmed form does not end in a space followed by a
  slash (it may contain \<open>" / "\<close> anywhere), every network that is not empty, has no white
  space around it, contains no \<open>" / "\<close> and does not end in a space followed by a slash,
  and every address of at least 8 code units with no white space around it and no
  \<open>" / "\<close> inside, \<open>parseCompareTicker (buildCompareTicker name network address)\<close>
  returns that address and that network.
\<close>

theorem codec_roundtrip:
  assumes "trim net = net" and "trim addr = addr"
    and "net \<noteq> []" and "8 \<le> length addr"
    and "\<not> sublist (js '' / '') net" and "\<not> sublist (js '' / '') addr"
    and "\<not> suffix (js '' /'') net" and "\<not> suffix (js '' /'') (trim poolName)"
  shows "parseCompareTicker (buildCompareTicker poolName net addr)
           = Some \<lparr>address = addr, network = net\<rparr>"
proof -
  let ?sep = "[0x20, 0x2F, 0x20] :: jsstring"
  let ?t = "buildCompareTicker poolName net addr"
  have ne: "(0x20 :: 16 word) \<noteq> 0x2F"
    by simp
  have t: "?t = trim poolName @ ?sep @ (net @ ?sep @ addr)"
    by (simp add: buildCompareTicker_def sep_chars)
  obtain parts where parts: "parts \<noteq> []"
    "split_str ?sep ?t = parts @ split_str ?sep (net @ ?sep @ addr)"
    unfolding t using split_str_name [OF ne, of "trim poolName" "net @ ?sep @ addr"] assms(8)
    unfolding sep_chars by blast
  have "split_str ?sep (net @ ?sep @ addr) = net # split_str ?sep addr"
    using split_str_segment [OF ne, of net addr] assms(5,7) unfolding sep_chars by simp
  also have "split_str ?sep addr = [addr]"
    using assms(6) unfolding sep_chars by (rule split_str_no_occurrence)
  finally have sp: "split_str (js '' / '') ?t = parts @ [net, addr]"
    using parts(2) by (simp add: sep_chars)
  have "addr \<noteq> []"
    using assms(4) by auto
  then have "\<not> (\<forall>c \<in> set addr. isWhiteSpace c)"
    using assms(2) trim_eq_Nil_iff by metis
  then have "\<not> (\<forall>c \<in> set ?t. isWhiteSpace c)"
    unfolding t by auto
  then have nonblank: "trim ?t \<noteq> []"
    by (simp only: trim_eq_Nil_iff not_False_eq_True)
  have len: "length (map trim (parts @ [net, addr])) \<ge> 3"
    using parts(1) by (cases parts) auto
  have last: "map trim (parts @ [net, addr]) ! (length (map trim (parts @ [net, addr])) - 1) = addr"
    using assms(2) by (simp add: nth_append)
  have prev: "map trim (parts @ [net, addr]) ! (length (map trim (parts @ [net, addr])) - 2) = net"
    using assms(1) by (simp add: nth_append)
  show ?thesis
    unfolding parseCompareTicker_def Let_def sp
    using nonblank len last prev assms(3,4) \<open>addr \<noteq> []\<close> by (simp only: if_False if_True simp_thms)
qed

theorem codec_roundtrip_witness:
  "trim (js ''bsc'') = js ''bsc'' \<and> trim (js ''0xABCDEF12'') = js ''0xABCDEF12''
   \<and> js ''bsc'' \<noteq> [] \<and> 8 \<le> length (js ''0xABCDEF12'')
   \<and> \<not> sublist (js '' / '') (js ''bsc'') \<and> \<not> sublist (js '' / '') (js ''0xABCDEF12'')
   \<and> \<not> suffix (js '' /'') (js ''bsc'') \<and> \<not> suffix (js '' /'') (trim (js '' BIBI / WBNB ''))
   \<and> parseCompareTicker (buildCompareTicker (js '' BIBI / WBNB '') (js ''bsc'') (js ''0xABCDEF12''))
       = Some \<lparr>address = js ''0xABCDEF12'', network = js ''bsc''\<rparr>"
proof -
  have h1: "trim (js ''bsc'') = js ''bsc''" by code_simp
  have h2: "trim (js ''0xABCDEF12'') = js ''0xABCDEF12''" by code_simp
  have h3: "js ''bsc'' \<noteq> []" by (simp add: js_def)
  have h4: "8 \<le> length (js ''0xABCDEF12'')" by (simp add: js_def)
  have h5: "\<not> sublist (js '' / '') (js ''bsc'')" by code_simp
  have h6: "\<not> sublist (js '' / '') (js ''0xABCDEF12'')" by code_simp
  have h7: "\<not> suffix (js '' /'') (js ''bsc'')" by code_simp
  have h8: "\<not> suffix (js '' /'') (trim (js '' BIBI / WBNB ''))" by code_simp
  show ?thesis
    using codec_roundtrip [OF h1 h2 h3 h4 h5 h6 h7 h8] h1 h2 h3 h4 h5 h6 h7 h8 by blast
qed

text \<open>
  C8, as the claim states it, fails when the segments are the parts between the
  separators: the ticker below has three of them, the last of 10 code units and the one
  before it a single space, which is not empty, yet \<open>parseCompareTicker\<close> returns null,
  because it trims every segment before it looks at it.
\<close>

theorem parseCompareTicker_blank_segment_counterexample:
  "\<not> list_all isWhiteSpace (js ''a /   / 0x12345678'')
   \<and> split_str (js '' / '') (js ''a /   / 0x12345678'') = [js ''a'', js '' '', js ''0x12345678'']
   \<and> \<not> length (split_str (js '' / '') (js ''a /   / 0x12345678'')) < 3
   \<and> \<not> length (last (split_str (js '' / '') (js ''a /   / 0x12345678''))) < 8
   \<and> split_str (js '' / '') (js ''a /   / 0x12345678'') ! 1 \<noteq> []
   \<and> parseCompareTicker (js ''a /   / 0x12345678'') = None"
  by code_simp

text \<open>
  C8, amended. \<open>parseCompareTicker\<close> is a total function of the ticker. With the segments
  being the parts between the occurrences of \<open>" / "\<close>, each trimmed of the white space
  around it, it returns null when the ticker is empty or white space only, when there are
  fewer than 3 segments, when the last segment has fewer than 8 code units, and when the
  segment before the last is empty; on every other ticker it returns the last segment as
  the address and the one before it as the network.
\<close>

theorem parseCompareTicker_cases:
  "parseCompareTicker tickerString =
     (let segments = map trim (split_str (js '' / '') tickerString)
      in if list_all isWhiteSpace tickerString \<or> length segments < 3
            \<or> length (last segments) < 8 \<or> segments ! (length segments - 2) = []
         then None
         else Some \<lparr>address = last segments, network = segments ! (length segments - 2)\<rparr>)"
proof -
  let ?segments = "map trim (split_str (js '' / '') tickerString)"
  have "split_str (js '' / '') tickerString \<noteq> []"
    by (simp add: sep_chars split_str_nonempty)
  then have l: "?segments ! (length ?segments - 1) = last ?segments"
    by (simp add: last_conv_nth)
  have e: "8 \<le> length (last ?segments) \<Longrightarrow> last ?segments \<noteq> []"
    by auto
  show ?thesis
    unfolding parseCompareTicker_def Let_def l trim_blank
    using e by (auto simp: not_less not_le)
qed

section \<open>Price formatter at its boundary inputs\<close>

lemma toFixed_small:
  assumes "0 \<le> x" and "x < 10 ^ 21"
    and "of_int n \<le> x * 10 ^ f + 1 / 2" and "x * 10 ^ f + 1 / 2 < of_int n + 1"
    and "f \<noteq> 0" and "decimalDigits (nat n) = m"
  shows "toFixed ts x f =
    (let padded = (if length m \<le> f then replicate (f + 1 - length m) (digitChar 0) @ m else m)
     in take (length padded - f) padded @ js ''.'' @ drop (length padded - f) padded)"
proof -
  have "\<lfloor>x * 10 ^ f + 1 / 2\<rfloor> = n"
    using assms(3,4) by (rule floor_unique)
  moreover have "\<not> x < 0" and "\<not> 10 ^ 21 \<le> x"
    using assms(1,2) by simp_all
  ultimately show ?thesis
    using assms(5,6) by (simp add: toFixed_def Let_def)
qed

lemma replicate_2: "replicate 2 x = [x, x]"
  by (simp add: numeral_eq_Suc)

lemma replicate_7: "replicate 7 x = [x, x, x, x, x, x, x]"
  by (simp add: numeral_eq_Suc)

lemma toFixed_1234_5: "toFixed ts double_1234_5 2 = js ''1234.50''"
proof -
  have d: "decimalDigits (nat 123450) = js ''123450''"
    by (simp add: decimalDigits.simps digitChar_def js_def)
  have "toFixed ts double_1234_5 2 =
    (let padded = (if length (js ''123450'') \<le> 2
                   then replicate (2 + 1 - length (js ''123450'')) (digitChar 0) @ js ''123450''
                   else js ''123450'')
     in take (length padded - 2) padded @ js ''.'' @ drop (length padded - 2) padded)"
    using d by (rule toFixed_small [where n = 123450, rotated 5]) (simp_all add: double_1234_5_def)
  also have "\<dots> = js ''1234.50''"
    by (simp add: js_def)
  finally show ?thesis .
qed

lemma toFixed_0_05: "toFixed ts double_0_05 6 = js ''0.050000''"
proof -
  have d: "decimalDigits (nat 50000) = js ''50000''"
    by (simp add: decimalDigits.simps digitChar_def js_def)
  have "toFixed ts double_0_05 6 =
    (let padded = (if length (js ''50000'') \<le> 6
                   then replicate (6 + 1 - length (js ''50000'')) (digitChar 0) @ js ''50000''
                   else js ''50000'')
     in take (length padded - 6) padded @ js ''.'' @ drop (length padded - 6) padded)"
    using d by (rule toFixed_small [where n = 50000, rotated 5]) (simp_all add: double_0_05_def)
  also have "\<dots> = js ''0.050000''"
    by (simp add: js_def digitChar_def replicate_2)
  finally show ?thesis .
qed

lemma toFixed_942: "toFixed ts double_0_000000942 20 = js ''0.00000094200000000000''"
proof -
  have d: "decimalDigits (nat 94200000000000) = js ''94200000000000''"
    by (simp add: decimalDigits.simps digitChar_def js_def)
  have "toFixed ts double_0_000000942 20 =
    (let padded = (if length (js ''94200000000000'') \<le> 20
                   then replicate (20 + 1 - length (js ''94200000000000'')) (digitChar 0)
                          @ js ''94200000000000''
                   else js ''94200000000000'')
     in take (length padded - 20) padded @ js ''.'' @ drop (length padded - 20) padded)"
    using d by (rule toFixed_small [where n = 94200000000000, rotated 5])
      (simp_all add: double_0_000000942_def)
  also have "\<dots> = js ''0.00000094200000000000''"
    by (simp add: js_def digitChar_def replicate_7)
  finally show ?thesis .
qed

lemma format_1234_5: "formatCryptoPrice ts (Num double_1234_5) None = js ''1234.5''"
proof -
  have r: "replaceFractionZeros (js ''1234.50'') = js ''1234.5''"
    by (simp add: replaceFractionZeros_def js_def)
  have c: "\<bar>double_1234_5\<bar> = double_1234_5" "double_1234_5 \<noteq> 0"
    "double_0_001 \<le> double_1234_5" "1000 \<le> double_1234_5" "\<not> double_1234_5 < 0"
    by (simp_all add: double_1234_5_def double_0_001_def)
  show ?thesis
    by (simp add: formatCryptoPrice_def c toFixed_1234_5 r)
qed

lemma format_neg_0_05: "formatCryptoPrice ts (Num (- double_0_05)) sp = js ''-0.05''"
proof -
  have r: "replaceFractionZeros (js ''0.050000'') = js ''0.05''"
    by (simp add: replaceFractionZeros_def js_def)
  have c: "\<bar>double_0_05\<bar> = double_0_05" "double_0_05 \<noteq> 0" "0 < double_0_05"
    "\<not> double_0_05 < 0" "double_0_001 \<le> double_0_05" "\<not> 1000 \<le> double_0_05"
    "\<not> 1 \<le> double_0_05" "\<not> double_0_1 \<le> double_0_05"
    by (simp_all add: double_0_05_def double_0_001_def double_0_1_def)
  have j: "js ''-'' @ js ''0.05'' = js ''-0.05''"
    by (simp add: js_def)
  show ?thesis
    by (simp add: formatCryptoPrice_def c toFixed_0_05 r j)
qed

lemma format_942:
  "formatCryptoPrice ts (Num double_0_000000942) None = js ''0.0'' @ [0x2086] @ js ''942''"
proof -
  let ?after = "js ''00000094200000000000''"
  have s: "split_str (js ''.'') (js ''0.00000094200000000000'') = [js ''0'', ?after]"
    by (simp add: js_def)
  have z: "length (takeWhile (\<lambda>ch. ch = 0x30) ?after) = 6"
    by (simp add: js_def)
  have g: "replaceTrailingZeros (take 4 (drop 6 ?after)) = js ''942''"
    by (simp add: replaceTrailingZeros_def js_def)
  have d: "decimalDigits 6 = js ''6''"
    by (simp add: decimalDigits.simps digitChar_def js_def)
  have u: "toSubscript 6 = [0x2086]"
    by (simp add: toSubscript_def d) (simp add: js_def SUBSCRIPT_DIGITS_def)
  have n: "js ''942'' \<noteq> []"
    by (simp add: js_def)
  have c: "\<bar>double_0_000000942\<bar> = double_0_000000942" "double_0_000000942 \<noteq> 0"
    "\<not> double_0_001 \<le> double_0_000000942" "\<not> double_0_000000942 < 0"
    by (simp_all add: double_0_000000942_def double_0_001_def)
  show ?thesis
    by (simp add: formatCryptoPrice_def c toFixed_942 s z g u n)
qed

lemma format_zero: "formatCryptoPrice ts (Num 0) sp = js ''0''"
  by (simp add: formatCryptoPrice_def)

lemma format_nonfinite:
  "formatCryptoPrice ts NaN sp = js ''0''"
  "formatCryptoPrice ts PosInfinity sp = js ''0''"
  "formatCryptoPrice ts NegInfinity sp = js ''0''"
  by (simp_all add: formatCryptoPrice_def)

text \<open>
  C6. The boundary contract of \<open>formatCryptoPrice\<close>: \<open>NaN\<close> and the infinities give
  \<open>"0"\<close>; 0 gives \<open>"0"\<close>; \<open>-0.05\<close> gives \<open>"-0.05"\<close>, with a leading minus and no plus,
  whatever \<open>signPositive\<close> is; \<open>1234.5\<close> gives \<open>"1234.5"\<close>; \<open>0.000000942\<close> gives
  \<open>"0.0"\<close>, the subscript six (code unit 0x2086) for the 6 leading zeros, and the digits
  \<open>942\<close>. The numbers are the doubles that the literals denote, and the result does not
  depend on \<open>Number::toString\<close>.
\<close>

theorem formatCryptoPrice_boundary:
  "formatCryptoPrice numberToString NaN signPositive = js ''0''
   \<and> formatCryptoPrice numberToString PosInfinity signPositive = js ''0''
   \<and> formatCryptoPrice numberToString NegInfinity signPositive = js ''0''
   \<and> formatCryptoPrice numberToString (Num 0) signPositive = js ''0''
   \<and> formatCryptoPrice numberToString (Num (- double_0_05)) signPositive = js ''-0.05''
   \<and> formatCryptoPrice numberToString (Num double_1234_5) None = js ''1234.5''
   \<and> formatCryptoPrice numberToString (Num double_0_000000942) None
       = js ''0.0'' @ [0x2086] @ js ''942''"
proof (intro conjI)
  show "formatCryptoPrice numberToString NaN signPositive = js ''0''"
    and "formatCryptoPrice numberToString PosInfinity signPositive = js ''0''"
    and "formatCryptoPrice numberToString NegInfinity signPositive = js ''0''"
    by (rule format_nonfinite)+
  show "formatCryptoPrice numberToString (Num 0) signPositive = js ''0''"
    by (rule format_zero)
  show "formatCryptoPrice numberToString (Num (- double_0_05)) signPositive = js ''-0.05''"
    by (rule format_neg_0_05)
  show "formatCryptoPrice numberToString (Num double_1234_5) None = js ''1234.5''"
    by (rule format_1234_5)
  show "formatCryptoPrice numberToString (Num double_0_000000942) None
          = js ''0.0'' @ [0x2086] @ js ''942''"
    by (rule format_942)
qed

section \<open>getBars: the served bars, noData, and the stitched hour source\<close>

lemma aggregateBars_Nil: "aggregateBars [] resolution = []"
  by (simp add: aggregateBars_def fillBuckets_def)

lemma numberLessEq_lower:
  "numberLessEq (Num a) n = (case n of Num t \<Rightarrow> a \<le> t | PosInfinity \<Rightarrow> True | _ \<Rightarrow> False)"
  by (cases n) simp_all

lemma numberLessEq_upper:
  "numberLessEq n (Num a) = (case n of Num t \<Rightarrow> t \<le> a | NegInfinity \<Rightarrow> True | _ \<Rightarrow> False)"
  by (cases n) simp_all

lemma numberLess_lower:
  "numberLess (Num a) n = (case n of Num t \<Rightarrow> a < t | PosInfinity \<Rightarrow> True | _ \<Rightarrow> False)"
  by (cases n) simp_all

lemma inRange_eq:
  "(numberLessEq (Num a) n \<and> numberLessEq n (Num b))
     = (case n of Num t \<Rightarrow> a \<le> t \<and> t \<le> b | _ \<Rightarrow> False)"
  by (cases n) simp_all

lemma toMilliseconds_inRange:
  "map toMilliseconds (filter (\<lambda>b. case time b of Num t \<Rightarrow> P t | _ \<Rightarrow> False) xs)
     = map (\<lambda>b. case time b of Num t \<Rightarrow> b\<lparr>time := Num (t * 1000)\<rparr> | _ \<Rightarrow> b)
         (filter (\<lambda>b. case time b of Num t \<Rightarrow> P t | _ \<Rightarrow> False) xs)"
  by (rule map_cong) (auto simp: toMilliseconds_def split: number.splits)

lemma serveFromCache_eq:
  "serveFromCache series resolution pp =
     (let aggregated = aggregateBars series resolution;
          inRange = filter (\<lambda>b. case time b of
                                   Num t \<Rightarrow> of_int (from pp) \<le> t \<and> t \<le> of_int (to pp)
                                 | _ \<Rightarrow> False) aggregated
      in (map (\<lambda>b. case time b of Num t \<Rightarrow> b\<lparr>time := Num (t * 1000)\<rparr> | _ \<Rightarrow> b) inRange,
          inRange = []
          \<and> (aggregated = []
              \<or> (case time (hd aggregated) of
                    Num t \<Rightarrow> of_int (to pp) < t
                  | PosInfinity \<Rightarrow> True
                  | _ \<Rightarrow> False))))"
  unfolding serveFromCache_def Let_def inRange_eq toMilliseconds_inRange numberLess_lower
  by (cases "aggregateBars series resolution") simp_all

lemma ownSymbol_not_compare: "parseCompareTicker (tickerOf ownSymbol) = None"
  by (simp add: tickerOf_def ownSymbol_def parseCompareTicker_def js_def trim_def isWhiteSpace_def)

lemma compareSymbol_parsed:
  "parseCompareTicker (tickerOf compareSymbol)
     = Some \<lparr>address = js ''0xABCDEF12'', network = js ''bsc''\<rparr>"
  by code_simp

lemma compareSymbol_key:
  "cacheKey \<lparr>address = js ''0xABCDEF12'', network = js ''bsc''\<rparr> = js ''0xABCDEF12_bsc''"
  by (simp add: cacheKey_def js_def)

lemma parseInt_60: "parseInt (js ''60'') = Some 60"
  by (simp add: parseInt_def js_def isWhiteSpace_def isRadixDigit_def digitValue_def Let_def)

lemma not_daily_60: "js ''60'' \<notin> set DAILY_RESOLUTIONS"
  by (simp add: DAILY_RESOLUTIONS_def js_def)

lemma sourceData_example:
  "sourceData [] [hourBar1, hourBar2] [dayBarOld, dayBarNew] (js ''60'')
     = [dayBarOld, hourBar1, hourBar2]"
  by (simp add: sourceData_def not_daily_60 parseInt_60 hourBar1_def dayBarOld_def dayBarNew_def)

lemma aggregate_example:
  "aggregateBars [dayBarOld, hourBar1, hourBar2] (js ''60'')
     = [asAggregated dayBarOld, asAggregated hourBar1, asAggregated hourBar2]"
  by (simp add: aggregateBars_def fillBuckets_def intervalSec_60 bucketTime_div asAggregated_def
      dayBarOld_def hourBar1_def hourBar2_def sortTime_def)

lemma aggregate_hour_example:
  "aggregateBars [hourBar1, hourBar2] (js ''60'')
     = [asAggregated hourBar1, asAggregated hourBar2]"
  by (simp add: aggregateBars_def fillBuckets_def intervalSec_60 bucketTime_div asAggregated_def
      hourBar1_def hourBar2_def sortTime_def)

lemma serve_example:
  "serveFromCache [dayBarOld, hourBar1, hourBar2] (js ''60'') \<lparr>from = 100000, to = 200000\<rparr>
   = ([\<lparr>time = Num 172800000, open = 11, high = 23 / 2, low = 21 / 2, close = 45 / 4,
          volume = Num 30\<rparr>,
        \<lparr>time = Num 176400000, open = 45 / 4, high = 12, low = 11, close = 47 / 4,
          volume = Num 25\<rparr>], False)"
  unfolding serveFromCache_eq aggregate_example
  by (simp add: asAggregated_def dayBarOld_def hourBar1_def hourBar2_def)

lemma serve_hour_example:
  "serveFromCache [hourBar1, hourBar2] (js ''60'') \<lparr>from = 100000, to = 200000\<rparr>
   = ([\<lparr>time = Num 172800000, open = 11, high = 23 / 2, low = 21 / 2, close = 45 / 4,
          volume = Num 30\<rparr>,
        \<lparr>time = Num 176400000, open = 45 / 4, high = 12, low = 11, close = 47 / 4,
          volume = Num 25\<rparr>], False)"
  unfolding serveFromCache_eq aggregate_hour_example
  by (simp add: asAggregated_def hourBar1_def hourBar2_def)

lemma getBars_own_example:
  "getBars [] [hourBar1, hourBar2] [dayBarOld, dayBarNew] noFeed Map.empty ownSymbol (js ''60'')
      \<lparr>from = 100000, to = 200000\<rparr>
   = (OnResult
        [\<lparr>time = Num 172800000, open = 11, high = 23 / 2, low = 21 / 2, close = 45 / 4,
           volume = Num 30\<rparr>,
         \<lparr>time = Num 176400000, open = 45 / 4, high = 12, low = 11, close = 47 / 4,
           volume = Num 25\<rparr>] False, Map.empty)"
  by (simp add: getBars_def ownSymbol_not_compare sourceData_example serve_example)

lemma getBars_cached_example:
  "getBars [] [] [] noFeed [js ''0xABCDEF12_bsc'' \<mapsto> [hourBar1, hourBar2]] compareSymbol (js ''60'')
      \<lparr>from = 100000, to = 200000\<rparr>
   = (OnResult
        [\<lparr>time = Num 172800000, open = 11, high = 23 / 2, low = 21 / 2, close = 45 / 4,
           volume = Num 30\<rparr>,
         \<lparr>time = Num 176400000, open = 45 / 4, high = 12, low = 11, close = 47 / 4,
           volume = Num 25\<rparr>] False,
      [js ''0xABCDEF12_bsc'' \<mapsto> [hourBar1, hourBar2]])"
  by (simp add: getBars_def compareSymbol_parsed compareSymbol_key serve_hour_example)

lemma fetch_empty_example:
  "fetchFullOhlcv emptyFeed (js ''0xABCDEF12'') (js ''bsc'') = Some ([], None)"
  by (simp add: fetchFullOhlcv_def emptyFeed_def getOhlcvFromFeed_def mergeOhlcv_def
      mergeLoop.simps mergeStep_def mergeRunning_def headAt_def)

lemma fetch_rejected_example:
  "fetchFullOhlcv noFeed (js ''0xABCDEF12'') (js ''bsc'') = None"
  by (simp add: fetchFullOhlcv_def noFeed_def)

lemma serve_empty: "serveFromCache [] resolution pp = ([], True)"
  by (simp add: serveFromCache_def aggregateBars_Nil)

lemma getBars_fetched_empty_example:
  "getBars [] [] [] emptyFeed Map.empty compareSymbol (js ''60'') \<lparr>from = 100000, to = 200000\<rparr>
   = (OnResult [] True, [js ''0xABCDEF12_bsc'' \<mapsto> []])"
  by (simp add: getBars_def compareSymbol_parsed compareSymbol_key fetch_empty_example serve_empty)

lemma getBars_rejected_example:
  "getBars [] [] [] noFeed Map.empty compareSymbol (js ''60'') \<lparr>from = 100000, to = 200000\<rparr>
   = (OnError, Map.empty)"
  by (simp add: getBars_def compareSymbol_parsed compareSymbol_key fetch_rejected_example)

text \<open>
  C9. Every \<open>getBars\<close> request either fails (a compare symbol that is not cached and
  whose fetch is rejected) or serves one series: the source series of the chart's own
  symbol, the cached series of a compare symbol, or the series just fetched for it, which
  is then cached. \<open>served\<close> is the result for a series: the aggregated bars whose time
  \<open>t\<close> is a number with \<open>from \<le> t \<le> to\<close>, each with the time \<open>t * 1000\<close>, and
  \<open>noData\<close>, which is true exactly when no bar is returned and the aggregated series is
  empty or \<open>to\<close> is before the time of its first bar. For the empty series the result is no
  bars and \<open>noData = true\<close>.
\<close>

theorem getBars_contract:
  "(let served = (\<lambda>series.
          let aggregated = aggregateBars series resolution;
              inRange = filter (\<lambda>b. case time b of
                                       Num t \<Rightarrow> of_int (from pp) \<le> t \<and> t \<le> of_int (to pp)
                                     | _ \<Rightarrow> False) aggregated
          in OnResult
               (map (\<lambda>b. case time b of Num t \<Rightarrow> b\<lparr>time := Num (t * 1000)\<rparr> | _ \<Rightarrow> b) inRange)
               (inRange = []
                \<and> (aggregated = []
                    \<or> (case time (hd aggregated) of
                          Num t \<Rightarrow> of_int (to pp) < t
                        | PosInfinity \<Rightarrow> True
                        | _ \<Rightarrow> False))))
    in getBars minuteData hourData dayData getDataFeed cache symbolInfo resolution pp
         = (case parseCompareTicker (tickerOf symbolInfo) of
              None \<Rightarrow> (served (sourceData minuteData hourData dayData resolution), cache)
            | Some parsed \<Rightarrow>
                (case cache (cacheKey parsed) of
                   Some cached \<Rightarrow> (served cached, cache)
                 | None \<Rightarrow>
                     (case fetchFullOhlcv getDataFeed (address parsed) (network parsed) of
                        Some (fetched, m) \<Rightarrow> (served fetched, cache(cacheKey parsed \<mapsto> fetched))
                      | None \<Rightarrow> (OnError, cache))))
       \<and> served [] = OnResult [] True)"
  unfolding getBars_def serveFromCache_eq
  by (simp add: Let_def aggregateBars_Nil split: option.splits prod.splits)

lemma sorted_times_stitch:
  fixes hourData dayData :: "bar list"
  assumes "hourData \<noteq> []"
    and "sorted_wrt (<) (map time hourData)" and "sorted_wrt (<) (map time dayData)"
  shows "sorted_wrt (<)
           (map time (filter (\<lambda>b. time b < time (hd hourData)) dayData @ hourData))"
proof -
  obtain a rest where h: "hourData = a # rest"
    using assms(1) by (cases hourData) auto
  have first: "time a \<le> time y" if "y \<in> set hourData" for y
    using that assms(2) unfolding h by auto
  have "sorted_wrt (\<lambda>x y. time x < time y) dayData"
    using assms(3) by (simp add: sorted_wrt_map)
  then have "sorted_wrt (\<lambda>x y. time x < time y) (filter (\<lambda>b. time b < time a) dayData)"
    by (rule sorted_wrt_filter)
  moreover have "sorted_wrt (\<lambda>x y. time x < time y) hourData"
    using assms(2) by (simp add: sorted_wrt_map)
  moreover have "\<forall>x \<in> set (filter (\<lambda>b. time b < time a) dayData). \<forall>y \<in> set hourData.
      time x < time y"
    using first by fastforce
  ultimately have "sorted_wrt (\<lambda>x y. time x < time y)
      (filter (\<lambda>b. time b < time a) dayData @ hourData)"
    unfolding sorted_wrt_append by (intro conjI)
  then show ?thesis
    unfolding h sorted_wrt_map by simp
qed

text \<open>
  C10. For the chart's own symbol (a ticker that is not a compare ticker), a resolution
  that is not a daily code and that \<open>parseInt\<close> reads as at least 60, and hour and day
  data that are both not empty, \<open>getBars\<close> serves the day bars whose time is strictly
  before the time of the first hour bar, followed by all hour bars; when both inputs have
  strictly increasing times, so has this source.
\<close>

theorem getBars_hour_source_stitched:
  assumes "parseCompareTicker (tickerOf symbolInfo) = None"
    and "resolution \<notin> set DAILY_RESOLUTIONS"
    and "parseInt resolution = Some n" and "60 \<le> n"
    and "hourData \<noteq> []" and "dayData \<noteq> []"
    and "sorted_wrt (<) (map time hourData)" and "sorted_wrt (<) (map time dayData)"
  shows "sourceData minuteData hourData dayData resolution
           = filter (\<lambda>b. time b < time (hd hourData)) dayData @ hourData
         \<and> sorted_wrt (<) (map time (sourceData minuteData hourData dayData resolution))
         \<and> getBars minuteData hourData dayData getDataFeed cache symbolInfo resolution pp
           = (OnResult
                (fst (serveFromCache
                        (filter (\<lambda>b. time b < time (hd hourData)) dayData @ hourData)
                        resolution pp))
                (snd (serveFromCache
                        (filter (\<lambda>b. time b < time (hd hourData)) dayData @ hourData)
                        resolution pp)),
              cache)"
proof -
  have s: "sourceData minuteData hourData dayData resolution
             = filter (\<lambda>b. time b < time (hd hourData)) dayData @ hourData"
    using assms(2-6) by (simp add: sourceData_def hd_conv_nth)
  have "sorted_wrt (<) (map time (sourceData minuteData hourData dayData resolution))"
    unfolding s using assms(5,7,8) by (rule sorted_times_stitch)
  moreover have "getBars minuteData hourData dayData getDataFeed cache symbolInfo resolution pp
           = (OnResult
                (fst (serveFromCache (sourceData minuteData hourData dayData resolution)
                        resolution pp))
                (snd (serveFromCache (sourceData minuteData hourData dayData resolution)
                        resolution pp)),
              cache)"
    using assms(1) by (simp add: getBars_def split: prod.splits)
  ultimately show ?thesis
    using s by simp
qed

theorem getBars_hour_source_stitched_witness:
  "parseCompareTicker (tickerOf ownSymbol) = None
   \<and> js ''60'' \<notin> set DAILY_RESOLUTIONS
   \<and> parseInt (js ''60'') = Some 60
   \<and> [hourBar1, hourBar2] \<noteq> [] \<and> [dayBarOld, dayBarNew] \<noteq> []
   \<and> sorted_wrt (<) (map time [hourBar1, hourBar2])
   \<and> sorted_wrt (<) (map time [dayBarOld, dayBarNew])
   \<and> sourceData [] [hourBar1, hourBar2] [dayBarOld, dayBarNew] (js ''60'')
       = [dayBarOld, hourBar1, hourBar2]
   \<and> sorted_wrt (<)
        (map time (sourceData [] [hourBar1, hourBar2] [dayBarOld, dayBarNew] (js ''60'')))"
proof -
  have h5: "[hourBar1, hourBar2] \<noteq> []" and h6: "[dayBarOld, dayBarNew] \<noteq> []"
    by simp_all
  have h7: "sorted_wrt (<) (map time [hourBar1, hourBar2])"
    by (simp add: hourBar1_def hourBar2_def)
  have h8: "sorted_wrt (<) (map time [dayBarOld, dayBarNew])"
    by (simp add: dayBarOld_def dayBarNew_def)
  have h4: "(60::int) \<le> 60"
    by simp
  have "sorted_wrt (<)
        (map time (sourceData [] [hourBar1, hourBar2] [dayBarOld, dayBarNew] (js ''60'')))"
    using getBars_hour_source_stitched
      [OF ownSymbol_not_compare not_daily_60 parseInt_60 h4 h5 h6 h7 h8]
    by blast
  then show ?thesis
    using ownSymbol_not_compare not_daily_60 parseInt_60 h7 h8 sourceData_example by simp
qed

end
